theory Spec2Isabelle
  imports Complex_Main
begin

section \<open>Values, exceptions and the Pydantic models (core/models.py)\<close>

text \<open>
  What \<^verbatim>\<open>json.load\<close> returns and what \<^verbatim>\<open>json.dumps\<close> accepts: the JSON-shaped Python
  values. A \<^verbatim>\<open>dict\<close> keeps its insertion order, so it is an association list; its keys
  are strings, each at most once. A finite float is the rational it denotes.
\<close>

datatype json =
    JNull
  | JBool bool
  | JInt int
  | JFloat rat
  | JStr string
  | JArr "json list"
  | JObj "(string \<times> json) list"

text \<open>The exceptions the modelled code raises or catches. \<open>ChainError\<close> is any
  \<^verbatim>\<open>Exception\<close> raised while the LangChain pipeline runs (connection refused, timeout of
  the HTTP client, \<^verbatim>\<open>OutputParserException\<close>); \<open>Psycopg2Error\<close> is \<^verbatim>\<open>psycopg2.Error\<close>.\<close>

datatype exn =
    FileNotFoundError
  | JSONDecodeError
  | TypeError
  | ValidationError
  | KeyError
  | IndexError
  | AttributeError
  | ValueError
  | ChainError string
  | Psycopg2Error

text \<open>\<^verbatim>\<open>Dict[str, List[Any]]\<close>: column name to the column's cells, in column order.\<close>

type_synonym table = "(string \<times> json list) list"

record question =
  qid :: string
  topic :: string
  difficulty :: string
  task_description :: string
  starting_data :: table
  solution_data :: table
  evaluation_criteria :: string

record evaluation =
  score :: int
  is_correct :: bool
  feedback :: string

text \<open>
  Pydantic validates a field in lax mode: a value that already has the field's type is
  taken as it is, any other value goes through the library's conversion table (for
  instance the string \<^verbatim>\<open>"3"\<close> for an \<^verbatim>\<open>int\<close> field). The conversion table is the
  library's, not the repository's, so it is a parameter of the model; everything below
  holds for every conversion table.
\<close>

record conversions =
  lax_str :: "json \<Rightarrow> string option"
  lax_int :: "json \<Rightarrow> int option"
  lax_bool :: "json \<Rightarrow> bool option"

definition no_conversions :: conversions where
  "no_conversions = \<lparr>lax_str = (\<lambda>_. None), lax_int = (\<lambda>_. None), lax_bool = (\<lambda>_. None)\<rparr>"

definition as_str :: "conversions \<Rightarrow> json \<Rightarrow> string option" where
  "as_str cv v = (case v of JStr s \<Rightarrow> Some s | _ \<Rightarrow> lax_str cv v)"

definition as_int :: "conversions \<Rightarrow> json \<Rightarrow> int option" where
  "as_int cv v = (case v of JInt n \<Rightarrow> Some n | _ \<Rightarrow> lax_int cv v)"

definition as_bool :: "conversions \<Rightarrow> json \<Rightarrow> bool option" where
  "as_bool cv v = (case v of JBool b \<Rightarrow> Some b | _ \<Rightarrow> lax_bool cv v)"

text \<open>\<^verbatim>\<open>List[Any]\<close> and \<^verbatim>\<open>Dict[str, List[Any]]\<close>: of the JSON-shaped values only a list is
  a list and only a dict is a dict; the cells are \<^verbatim>\<open>Any\<close> and are kept as they are.\<close>

definition as_list :: "json \<Rightarrow> json list option" where
  "as_list v = (case v of JArr xs \<Rightarrow> Some xs | _ \<Rightarrow> None)"

fun as_columns :: "(string \<times> json) list \<Rightarrow> table option" where
  "as_columns [] = Some []"
| "as_columns ((k, v) # kvs) =
     (case as_list v of
        None \<Rightarrow> None
      | Some xs \<Rightarrow> (case as_columns kvs of None \<Rightarrow> None | Some t \<Rightarrow> Some ((k, xs) # t)))"

definition as_table :: "json \<Rightarrow> table option" where
  "as_table v = (case v of JObj kvs \<Rightarrow> as_columns kvs | _ \<Rightarrow> None)"

text \<open>A required field (\<^verbatim>\<open>Field(...)\<close>, or an annotation with no default): the keyword must
  be there and its value must validate.\<close>

definition required :: "(json \<Rightarrow> 'a option) \<Rightarrow> (string \<times> json) list \<Rightarrow> string \<Rightarrow> 'a option" where
  "required validate kwargs name =
     (case map_of kwargs name of None \<Rightarrow> None | Some v \<Rightarrow> validate v)"

text \<open>\<^verbatim>\<open>Question(**q_data)\<close>. The call itself raises \<^verbatim>\<open>TypeError\<close> when \<^verbatim>\<open>q_data\<close> is not
  a mapping; otherwise Pydantic raises \<^verbatim>\<open>ValidationError\<close> unless every field validates.
  Keywords that are not fields are ignored (Pydantic's default).\<close>

definition validate_Question :: "conversions \<Rightarrow> (string \<times> json) list \<Rightarrow> question option" where
  "validate_Question cv kw =
     (case (required (as_str cv) kw ''id'', required (as_str cv) kw ''topic'',
            required (as_str cv) kw ''difficulty'', required (as_str cv) kw ''task_description'',
            required as_table kw ''starting_data'', required as_table kw ''solution_data'',
            required (as_str cv) kw ''evaluation_criteria'') of
        (Some i, Some t, Some d, Some td, Some sd, Some sol, Some ec) \<Rightarrow>
          Some \<lparr>qid = i, topic = t, difficulty = d, task_description = td,
                starting_data = sd, solution_data = sol, evaluation_criteria = ec\<rparr>
      | _ \<Rightarrow> None)"

definition Question_init :: "conversions \<Rightarrow> json \<Rightarrow> exn + question" where
  "Question_init cv q_data =
     (case q_data of
        JObj kw \<Rightarrow> (case validate_Question cv kw of None \<Rightarrow> Inl ValidationError | Some q \<Rightarrow> Inr q)
      | _ \<Rightarrow> Inl TypeError)"

text \<open>\<^verbatim>\<open>Evaluation(**e)\<close>: \<^verbatim>\<open>score: int = Field(..., ge=1, le=5)\<close>, \<^verbatim>\<open>is_correct: bool\<close>,
  \<^verbatim>\<open>feedback: str\<close>.\<close>

definition validate_Evaluation :: "conversions \<Rightarrow> (string \<times> json) list \<Rightarrow> evaluation option" where
  "validate_Evaluation cv kw =
     (case (required (as_int cv) kw ''score'', required (as_bool cv) kw ''is_correct'',
            required (as_str cv) kw ''feedback'') of
        (Some n, Some b, Some f) \<Rightarrow>
          if 1 \<le> n \<and> n \<le> 5 then Some \<lparr>score = n, is_correct = b, feedback = f\<rparr> else None
      | _ \<Rightarrow> None)"

definition Evaluation_init :: "conversions \<Rightarrow> json \<Rightarrow> exn + evaluation" where
  "Evaluation_init cv e =
     (case e of
        JObj kw \<Rightarrow> (case validate_Evaluation cv kw of None \<Rightarrow> Inl ValidationError | Some ev \<Rightarrow> Inr ev)
      | _ \<Rightarrow> Inl TypeError)"

text \<open>\<^verbatim>\<open>model_dump()\<close>: the fields as a plain dict, in declaration order.\<close>

definition dump_table :: "table \<Rightarrow> json" where
  "dump_table t = JObj (map (\<lambda>(k, xs). (k, JArr xs)) t)"

definition question_model_dump :: "question \<Rightarrow> json" where
  "question_model_dump q =
     JObj [(''id'', JStr (qid q)), (''topic'', JStr (topic q)), (''difficulty'', JStr (difficulty q)),
           (''task_description'', JStr (task_description q)),
           (''starting_data'', dump_table (starting_data q)),
           (''solution_data'', dump_table (solution_data q)),
           (''evaluation_criteria'', JStr (evaluation_criteria q))]"

definition evaluation_model_dump :: "evaluation \<Rightarrow> json" where
  "evaluation_model_dump e =
     JObj [(''score'', JInt (score e)), (''is_correct'', JBool (is_correct e)),
           (''feedback'', JStr (feedback e))]"

section \<open>The question catalog (utils/helpers.py)\<close>

text \<open>What opening and parsing \<^verbatim>\<open>questions.json\<close> gives: \<^verbatim>\<open>open\<close> raises
  \<^verbatim>\<open>FileNotFoundError\<close>, \<^verbatim>\<open>json.load\<close> raises \<^verbatim>\<open>JSONDecodeError\<close>, or the document is
  there.\<close>

datatype source = Missing | NotJSON | Parsed json

text \<open>\<^verbatim>\<open>for q_data in questions_data\<close>: a list yields its elements, a dict its keys, a
  string its characters; nothing else is iterable.\<close>

definition py_iter :: "json \<Rightarrow> exn + json list" where
  "py_iter v =
     (case v of
        JArr xs \<Rightarrow> Inr xs
      | JObj kvs \<Rightarrow> Inr (map (\<lambda>kv. JStr (fst kv)) kvs)
      | JStr s \<Rightarrow> Inr (map (\<lambda>c. JStr [c]) s)
      | _ \<Rightarrow> Inl TypeError)"

text \<open>\<^verbatim>\<open>[Question(**q_data) for q_data in ...]\<close>: left to right, the first exception ends
  the comprehension.\<close>

fun questions_of :: "conversions \<Rightarrow> json list \<Rightarrow> exn + question list" where
  "questions_of cv [] = Inr []"
| "questions_of cv (q_data # rest) =
     (case Question_init cv q_data of
        Inl e \<Rightarrow> Inl e
      | Inr q \<Rightarrow> (case questions_of cv rest of Inl e \<Rightarrow> Inl e | Inr qs \<Rightarrow> Inr (q # qs)))"

definition load_questions_try :: "conversions \<Rightarrow> source \<Rightarrow> exn + question list" where
  "load_questions_try cv src =
     (case src of
        Missing \<Rightarrow> Inl FileNotFoundError
      | NotJSON \<Rightarrow> Inl JSONDecodeError
      | Parsed questions_data \<Rightarrow>
          (case py_iter questions_data of Inl e \<Rightarrow> Inl e | Inr items \<Rightarrow> questions_of cv items))"

text \<open>\<^verbatim>\<open>except (FileNotFoundError, json.JSONDecodeError, TypeError)\<close>: these three are
  answered with the empty list, any other exception leaves the function.\<close>

definition load_questions :: "conversions \<Rightarrow> source \<Rightarrow> exn + question list" where
  "load_questions cv src =
     (case load_questions_try cv src of
        Inl e \<Rightarrow> if e = FileNotFoundError \<or> e = JSONDecodeError \<or> e = TypeError then Inr [] else Inl e
      | Inr qs \<Rightarrow> Inr qs)"

section \<open>The evaluator (core/agent.py)\<close>

text \<open>The input of the chain, as \<^verbatim>\<open>evaluate_formula\<close> builds it.\<close>

record chain_input =
  ci_task_description :: string
  ci_evaluation_criteria :: string
  ci_candidate_formula :: string
  ci_format_instructions :: string

text \<open>
  \<^verbatim>\<open>self.chain\<close> is \<^verbatim>\<open>prompt | llm | parser\<close> when \<^verbatim>\<open>ChatOllama(...)\<close> could be
  constructed and \<^verbatim>\<open>None\<close> when its constructor raised. Invoking the chain either raises
  or returns what \<^verbatim>\<open>JsonOutputParser\<close> parsed from the model's answer: any JSON value, not
  yet validated against \<^verbatim>\<open>Evaluation\<close>. The language model is outside the repository, so
  the chain is an arbitrary function.
\<close>

record agent =
  chain_f :: "(chain_input \<Rightarrow> exn + json) option"
  format_instructions :: string

text \<open>\<^verbatim>\<open>evaluation_result['score']\<close>: a dict without the key raises \<^verbatim>\<open>KeyError\<close>; a list
  or a string does not take a string index and nothing else is subscriptable, which is a
  \<^verbatim>\<open>TypeError\<close>.\<close>

definition subscript :: "json \<Rightarrow> string \<Rightarrow> exn + json" where
  "subscript v key =
     (case v of
        JObj kvs \<Rightarrow> (case map_of kvs key of None \<Rightarrow> Inl KeyError | Some x \<Rightarrow> Inr x)
      | _ \<Rightarrow> Inl TypeError)"

text \<open>The sentinel of the \<^verbatim>\<open>except Exception\<close> branch.\<close>

definition error_evaluation :: evaluation where
  "error_evaluation =
     \<lparr>score = 1, is_correct = False,
      feedback = ''An error occurred while evaluating the response. Please ensure the formula is valid or try again.''\<rparr>"

text \<open>The body of the \<^verbatim>\<open>try\<close>: invoke the chain, read the score for the log line,
  construct the \<^verbatim>\<open>Evaluation\<close>.\<close>

definition chain_input_of :: "agent \<Rightarrow> question \<Rightarrow> string \<Rightarrow> chain_input" where
  "chain_input_of self question candidate_formula =
     \<lparr>ci_task_description = task_description question,
      ci_evaluation_criteria = evaluation_criteria question,
      ci_candidate_formula = candidate_formula,
      ci_format_instructions = format_instructions self\<rparr>"

definition evaluate_formula_try ::
  "conversions \<Rightarrow> agent \<Rightarrow> (chain_input \<Rightarrow> exn + json) \<Rightarrow> question \<Rightarrow> string \<Rightarrow> exn + evaluation" where
  "evaluate_formula_try cv self ch question candidate_formula =
     (case ch (chain_input_of self question candidate_formula) of
        Inl e \<Rightarrow> Inl e
      | Inr evaluation_result \<Rightarrow>
          (case subscript evaluation_result ''score'' of
             Inl e \<Rightarrow> Inl e
           | Inr _ \<Rightarrow> Evaluation_init cv evaluation_result))"

text \<open>\<^verbatim>\<open>evaluate_formula\<close>: \<^verbatim>\<open>None\<close> when there is no chain; otherwise the result of the
  \<^verbatim>\<open>try\<close>, with every exception replaced by the sentinel.\<close>

definition evaluate_formula :: "conversions \<Rightarrow> agent \<Rightarrow> question \<Rightarrow> string \<Rightarrow> evaluation option" where
  "evaluate_formula cv self question candidate_formula =
     (case chain_f self of
        None \<Rightarrow> None
      | Some ch \<Rightarrow>
          (case evaluate_formula_try cv self ch question candidate_formula of
             Inl e \<Rightarrow> Some error_evaluation
           | Inr ev \<Rightarrow> Some ev))"

section \<open>Session state and the session store (database/redis_db.py)\<close>

text \<open>A reading of the clock (\<^verbatim>\<open>datetime.now()\<close>); \<^verbatim>\<open>isoformat()\<close> writes it as a string
  without losing anything, so the string is identified with the reading.\<close>

type_synonym instant = nat

text \<open>One entry of \<^verbatim>\<open>state["user_answers"]\<close>: a plain dict with these four keys.\<close>

record answer =
  question_id :: string
  submitted_formula :: string
  final_dataframe :: table
  is_state_correct :: bool

text \<open>
  One entry of \<^verbatim>\<open>state["evaluations"]\<close>. \<^verbatim>\<open>interview_screen\<close> appends
  \<^verbatim>\<open>ai_evaluation.model_dump()\<close>, a plain dict; \<^verbatim>\<open>_deserialize_data\<close> builds
  \<^verbatim>\<open>Evaluation\<close> objects. Python tells the two apart: a dict has \<^verbatim>\<open>.get\<close> and
  \<^verbatim>\<open>e['score']\<close>, the Pydantic object has neither, and a dict is never equal to a model.
\<close>

datatype evaluation_entry = PlainDict evaluation | Model evaluation

text \<open>
  The session dictionary. Its keys are the seven that \<^verbatim>\<open>create_new_session\<close> writes and
  the two timestamps that \<^verbatim>\<open>start_screen\<close> and \<^verbatim>\<open>interview_screen\<close> add, so it is a record;
  a timestamp that has not been written is \<open>None\<close>. In memory (\<open>session_state\<close>) the
  questions are \<^verbatim>\<open>Question\<close> objects; in the stored JSON document (\<open>document\<close>) questions
  and evaluations are plain dicts. \<^verbatim>\<open>json.dumps\<close> and \<^verbatim>\<open>json.loads\<close> are the library's:
  the stored text is identified with the document it denotes.
\<close>

record ('q, 'e) session =
  session_id :: string
  current_question_index :: nat
  questions :: "'q list"
  user_answers :: "answer list"
  evaluations :: "'e list"
  interview_started :: bool
  interview_finished :: bool
  start_time :: "instant option"
  end_time :: "instant option"

type_synonym session_state = "(question, evaluation_entry) session"
type_synonym document = "(json, json) session"

text \<open>\<^verbatim>\<open>_serialize_data\<close>: \<^verbatim>\<open>json.dumps(data, default=default_serializer)\<close>; a dict is
  written as it is and an object with \<^verbatim>\<open>model_dump\<close> as its dump.\<close>

definition entry_dump :: "evaluation_entry \<Rightarrow> json" where
  "entry_dump e = (case e of PlainDict d \<Rightarrow> evaluation_model_dump d | Model m \<Rightarrow> evaluation_model_dump m)"

definition serialize_data :: "session_state \<Rightarrow> document" where
  "serialize_data data =
     \<lparr>session_id = session_id data,
      current_question_index = current_question_index data,
      questions = map question_model_dump (questions data),
      user_answers = user_answers data,
      evaluations = map entry_dump (evaluations data),
      interview_started = interview_started data,
      interview_finished = interview_finished data,
      start_time = start_time data,
      end_time = end_time data\<rparr>"

text \<open>\<^verbatim>\<open>[Evaluation(**e) for e in data['evaluations']]\<close>.\<close>

fun evaluations_of :: "conversions \<Rightarrow> json list \<Rightarrow> exn + evaluation list" where
  "evaluations_of cv [] = Inr []"
| "evaluations_of cv (e # rest) =
     (case Evaluation_init cv e of
        Inl x \<Rightarrow> Inl x
      | Inr ev \<Rightarrow> (case evaluations_of cv rest of Inl x \<Rightarrow> Inl x | Inr evs \<Rightarrow> Inr (ev # evs)))"

text \<open>\<^verbatim>\<open>_deserialize_data\<close>: both lists are re-hydrated into Pydantic objects, everything
  else is returned as \<^verbatim>\<open>json.loads\<close> gave it.\<close>

definition deserialize_data :: "conversions \<Rightarrow> document \<Rightarrow> exn + session_state" where
  "deserialize_data cv data =
     (case questions_of cv (questions data) of
        Inl x \<Rightarrow> Inl x
      | Inr qs \<Rightarrow>
          (case evaluations_of cv (evaluations data) of
             Inl x \<Rightarrow> Inl x
           | Inr evs \<Rightarrow>
               Inr \<lparr>session_id = session_id data,
                    current_question_index = current_question_index data,
                    questions = qs,
                    user_answers = user_answers data,
                    evaluations = map Model evs,
                    interview_started = interview_started data,
                    interview_finished = interview_finished data,
                    start_time = start_time data,
                    end_time = end_time data\<rparr>))"

text \<open>Redis, as far as the session manager uses it: a key holds a document or nothing.
  The 24-hour expiry is not modelled; a read directly after a write is within it.\<close>

type_synonym redis = "string \<rightharpoonup> document"

definition session_key :: "string \<Rightarrow> string" where
  "session_key sid = ''interview_session:'' @ sid"

definition get_session_state :: "conversions \<Rightarrow> redis \<Rightarrow> string \<Rightarrow> exn + session_state option" where
  "get_session_state cv redis_conn sid =
     (case redis_conn (session_key sid) of
        None \<Rightarrow> Inr None
      | Some stored_state \<Rightarrow>
          (case deserialize_data cv stored_state of Inl x \<Rightarrow> Inl x | Inr data \<Rightarrow> Inr (Some data)))"

definition save_session_state :: "redis \<Rightarrow> string \<Rightarrow> session_state \<Rightarrow> redis" where
  "save_session_state redis_conn sid state = redis_conn(session_key sid \<mapsto> serialize_data state)"

definition initial_state :: "string \<Rightarrow> question list \<Rightarrow> session_state" where
  "initial_state sid qs =
     \<lparr>session_id = sid, current_question_index = 0, questions = qs, user_answers = [],
      evaluations = [], interview_started = False, interview_finished = False,
      start_time = None, end_time = None\<rparr>"

definition create_new_session :: "redis \<Rightarrow> string \<Rightarrow> question list \<Rightarrow> session_state \<times> redis" where
  "create_new_session redis_conn sid qs =
     (initial_state sid qs, save_session_state redis_conn sid (initial_state sid qs))"

section \<open>The report store (database/postgres_db.py)\<close>

text \<open>A row of \<^verbatim>\<open>interview_results\<close>. \<^verbatim>\<open>final_score\<close> is the exact quotient; the rounding
  of Python's float division and of the \<^verbatim>\<open>REAL\<close> column is not modelled.\<close>

record report_row =
  r_session_id :: string
  r_start_time :: "instant option"
  r_end_time :: instant
  r_final_score :: rat
  r_feedback_summary :: string
  r_full_transcript :: document

text \<open>
  The statement \<^verbatim>\<open>save_interview_report\<close> executes:
  \<^verbatim>\<open>INSERT INTO interview_results (...) VALUES (...) ON CONFLICT (session_id) DO UPDATE SET
  end_time = EXCLUDED.end_time, final_score = EXCLUDED.final_score,
  feedback_summary = EXCLUDED.feedback_summary, full_transcript = EXCLUDED.full_transcript\<close>.
  The table is the list of its rows. With no row of that \<^verbatim>\<open>session_id\<close> the new row is
  inserted; otherwise the four columns of the \<^verbatim>\<open>SET\<close> list are overwritten in the
  existing row and its other columns stay.
\<close>

fun upsert_report :: "report_row \<Rightarrow> report_row list \<Rightarrow> report_row list" where
  "upsert_report excluded [] = [excluded]"
| "upsert_report excluded (r # rows) =
     (if r_session_id r = r_session_id excluded
      then r\<lparr>r_end_time := r_end_time excluded,
             r_final_score := r_final_score excluded,
             r_feedback_summary := r_feedback_summary excluded,
             r_full_transcript := r_full_transcript excluded\<rparr> # rows
      else r # upsert_report excluded rows)"

text \<open>\<^verbatim>\<open>[e.get('score', 0) for e in ...]\<close> and \<^verbatim>\<open>[e.get('feedback', '') for e in ...]\<close>: a
  dict made by \<^verbatim>\<open>model_dump()\<close> has both keys; an \<^verbatim>\<open>Evaluation\<close> object has no attribute
  \<^verbatim>\<open>get\<close>.\<close>

fun get_scores :: "evaluation_entry list \<Rightarrow> exn + int list" where
  "get_scores [] = Inr []"
| "get_scores (PlainDict d # es) =
     (case get_scores es of Inl x \<Rightarrow> Inl x | Inr ns \<Rightarrow> Inr (score d # ns))"
| "get_scores (Model m # es) = Inl AttributeError"

fun get_feedback :: "evaluation_entry list \<Rightarrow> exn + string list" where
  "get_feedback [] = Inr []"
| "get_feedback (PlainDict d # es) =
     (case get_feedback es of Inl x \<Rightarrow> Inl x | Inr fs \<Rightarrow> Inr (feedback d # fs))"
| "get_feedback (Model m # es) = Inl AttributeError"

text \<open>\<^verbatim>\<open>sum(scores) / len(scores) if scores else 0.0\<close>.\<close>

definition mean_score :: "int list \<Rightarrow> rat" where
  "mean_score scores = (if scores = [] then 0 else of_int (sum_list scores) / of_nat (length scores))"

text \<open>\<^verbatim>\<open>"\n".join(f"- {fb}" for fb in feedback_items)\<close>.\<close>

fun join :: "string \<Rightarrow> string list \<Rightarrow> string" where
  "join sep [] = []"
| "join sep [x] = x"
| "join sep (x # y # ys) = x @ sep @ join sep (y # ys)"

definition summarize :: "string list \<Rightarrow> string" where
  "summarize feedback_items = join [CHR 0x0A] (map (\<lambda>fb. ''- '' @ fb) feedback_items)"

text \<open>\<^verbatim>\<open>json.dumps(session_state)\<close> with no \<^verbatim>\<open>default\<close>: a \<^verbatim>\<open>Question\<close> or an
  \<^verbatim>\<open>Evaluation\<close> object anywhere in the state is a \<^verbatim>\<open>TypeError\<close>.\<close>

fun is_plain :: "evaluation_entry \<Rightarrow> bool" where
  "is_plain (PlainDict d) = True"
| "is_plain (Model m) = False"

definition json_dumps :: "session_state \<Rightarrow> exn + document" where
  "json_dumps state =
     (if questions state = [] \<and> list_all is_plain (evaluations state)
      then Inr (serialize_data state) else Inl TypeError)"

text \<open>The pool is \<^verbatim>\<open>None\<close> when it could not be created at import time; otherwise it
  reaches the table. A \<^verbatim>\<open>psycopg2.Error\<close> can come from \<^verbatim>\<open>getconn\<close> or from
  \<^verbatim>\<open>execute\<close>/\<^verbatim>\<open>commit\<close>.\<close>

type_synonym pg_pool = "report_row list option"

datatype db_fault = NoFault | GetconnFails | ExecuteFails

text \<open>
  \<^verbatim>\<open>save_interview_report\<close>. Score and summary are computed before the \<^verbatim>\<open>try\<close>. Inside
  it the parameter tuple is built after \<^verbatim>\<open>getconn\<close>, with \<^verbatim>\<open>datetime.now().astimezone()\<close>
  (here \<open>now\<close>) as \<^verbatim>\<open>end_time\<close>. \<^verbatim>\<open>except psycopg2.Error\<close> logs, rolls back and returns;
  no other exception is caught.
\<close>

definition save_interview_report ::
  "db_fault \<Rightarrow> instant \<Rightarrow> pg_pool \<Rightarrow> session_state \<Rightarrow> exn + pg_pool" where
  "save_interview_report fault now pool state =
     (case pool of
        None \<Rightarrow> Inr None
      | Some rows \<Rightarrow>
          (case get_scores (evaluations state) of
             Inl x \<Rightarrow> Inl x
           | Inr scores \<Rightarrow>
               (case get_feedback (evaluations state) of
                  Inl x \<Rightarrow> Inl x
                | Inr feedback_items \<Rightarrow>
                    if fault = GetconnFails then Inr (Some rows)
                    else
                      (case json_dumps state of
                         Inl x \<Rightarrow> Inl x
                       | Inr transcript \<Rightarrow>
                           if fault = ExecuteFails then Inr (Some rows)
                           else Inr (Some (upsert_report
                                  \<lparr>r_session_id = session_id state,
                                   r_start_time = start_time state,
                                   r_end_time = now,
                                   r_final_score = mean_score scores,
                                   r_feedback_summary = summarize feedback_items,
                                   r_full_transcript = transcript\<rparr> rows))))))"

section \<open>The interview flow (main.py)\<close>

text \<open>\<^verbatim>\<open>pd.DataFrame(d)\<close> raises \<^verbatim>\<open>ValueError\<close> unless all columns have the same length; the
  frame is kept as the table it was built from, and \<^verbatim>\<open>to_dict('list')\<close> gives that table
  back. \<^verbatim>\<open>DataFrame.equals\<close> is pandas' own comparison and stays a parameter.\<close>

definition DataFrame :: "table \<Rightarrow> exn + table" where
  "DataFrame d =
     (if list_all (\<lambda>col. length (snd col) = length (snd (hd d))) d then Inr d else Inl ValueError)"

text \<open>What the flow takes from outside the repository in one run of the script.\<close>

record world =
  pydantic :: conversions
  excel_agent :: agent
  df_equals :: "table \<Rightarrow> table \<Rightarrow> bool"
  pg_fault :: db_fault
  questions_file :: source

text \<open>The two stores.\<close>

type_synonym stores = "redis \<times> pg_pool"

text \<open>\<^verbatim>\<open>start_screen\<close> with the button pressed at time \<open>now\<close>.\<close>

definition start_screen :: "world \<Rightarrow> instant \<Rightarrow> string \<Rightarrow> redis \<Rightarrow> exn + session_state \<times> redis" where
  "start_screen w now sid redis_conn =
     (case load_questions (pydantic w) (questions_file w) of
        Inl x \<Rightarrow> Inl x
      | Inr all_questions \<Rightarrow>
          (case create_new_session redis_conn sid all_questions of
             (session_state, redis1) \<Rightarrow>
               Inr (session_state\<lparr>interview_started := True, start_time := Some now\<rparr>,
                    save_session_state redis1 sid
                      (session_state\<lparr>interview_started := True, start_time := Some now\<rparr>))))"

text \<open>
  \<^verbatim>\<open>interview_screen\<close>. Rendering reads \<^verbatim>\<open>questions[q_index]\<close> (an \<^verbatim>\<open>IndexError\<close> when the
  index is not below the length) and builds the starting frame. \<open>click\<close> is \<open>None\<close> when
  the page is only shown and \<open>Some (formula, edited_df)\<close> when the submit button is
  pressed; \<open>t_end\<close> and \<open>t_report\<close> are the two clock readings taken when the interview
  ends, the first in \<^verbatim>\<open>interview_screen\<close>, the second in \<^verbatim>\<open>save_interview_report\<close>.
  \<^verbatim>\<open>ai_evaluation.model_dump()\<close> on \<^verbatim>\<open>None\<close> is an \<^verbatim>\<open>AttributeError\<close>; it is raised after the
  answer was appended in memory and before anything is saved. An exception leaves both
  stores as they were.
\<close>

definition interview_screen ::
  "world \<Rightarrow> instant \<Rightarrow> instant \<Rightarrow> string \<Rightarrow> stores \<Rightarrow> session_state \<Rightarrow> (string \<times> table) option
     \<Rightarrow> exn + session_state \<times> stores" where
  "interview_screen w t_end t_report sid st state click =
     (if length (questions state) \<le> current_question_index state then Inl IndexError
      else
        (case DataFrame (starting_data (questions state ! current_question_index state)) of
           Inl x \<Rightarrow> Inl x
         | Inr current_df \<Rightarrow>
             (case click of
                None \<Rightarrow> Inr (state, st)
              | Some (formula, edited_df) \<Rightarrow>
                  (case DataFrame (solution_data (questions state ! current_question_index state)) of
                     Inl x \<Rightarrow> Inl x
                   | Inr solution_df \<Rightarrow>
                       (case evaluate_formula (pydantic w) (excel_agent w)
                               (questions state ! current_question_index state) formula of
                          None \<Rightarrow> Inl AttributeError
                        | Some ai_evaluation \<Rightarrow>
                            (let state1 = state
                                   \<lparr>user_answers := user_answers state @
                                      [\<lparr>question_id = qid (questions state ! current_question_index state),
                                        submitted_formula = formula,
                                        final_dataframe = edited_df,
                                        is_state_correct = df_equals w solution_df edited_df\<rparr>],
                                    evaluations := evaluations state @ [PlainDict ai_evaluation],
                                    current_question_index := current_question_index state + 1\<rparr>
                             in if length (questions state) \<le> current_question_index state1
                                then
                                  (case save_interview_report (pg_fault w) t_report (snd st)
                                          (state1\<lparr>interview_finished := True, end_time := Some t_end\<rparr>) of
                                     Inl x \<Rightarrow> Inl x
                                   | Inr pool1 \<Rightarrow>
                                       Inr (state1\<lparr>interview_finished := True, end_time := Some t_end\<rparr>,
                                            save_session_state (fst st) sid
                                              (state1\<lparr>interview_finished := True, end_time := Some t_end\<rparr>),
                                            pool1))
                                else Inr (state1, save_session_state (fst st) sid state1, snd st)))))))"

text \<open>\<^verbatim>\<open>e['score']\<close>: an \<^verbatim>\<open>Evaluation\<close> object is not subscriptable.\<close>

fun subscript_scores :: "evaluation_entry list \<Rightarrow> exn + int list" where
  "subscript_scores [] = Inr []"
| "subscript_scores (PlainDict d # es) =
     (case subscript_scores es of Inl x \<Rightarrow> Inl x | Inr ns \<Rightarrow> Inr (score d # ns))"
| "subscript_scores (Model m # es) = Inl TypeError"

text \<open>\<^verbatim>\<open>final_report_screen\<close>: the warning (\<open>None\<close>) when there are no evaluations, else the
  overall score it shows; the loop over the evaluations then reads \<^verbatim>\<open>questions[i]\<close> for
  each of them.\<close>

definition final_report_screen :: "session_state \<Rightarrow> exn + rat option" where
  "final_report_screen state =
     (if evaluations state = [] then Inr None
      else (case subscript_scores (evaluations state) of
              Inl x \<Rightarrow> Inl x
            | Inr scores \<Rightarrow>
                if length (questions state) < length (evaluations state) then Inl IndexError
                else Inr (Some (mean_score scores))))"

text \<open>What the user does in one run of the script.\<close>

datatype action = View | PressStart | PressSubmit string table

text \<open>\<^verbatim>\<open>main\<close>: read the session, then show the start screen, the report or the current
  question. The result is the stores after the run, or the exception that ended it.\<close>

definition main :: "world \<Rightarrow> instant \<Rightarrow> instant \<Rightarrow> string \<Rightarrow> stores \<Rightarrow> action \<Rightarrow> exn + stores" where
  "main w now t_report sid st act =
     (case get_session_state (pydantic w) (fst st) sid of
        Inl x \<Rightarrow> Inl x
      | Inr None \<Rightarrow>
          (if act = PressStart
           then (case start_screen w now sid (fst st) of
                   Inl x \<Rightarrow> Inl x
                 | Inr (state, redis1) \<Rightarrow> Inr (redis1, snd st))
           else Inr st)
      | Inr (Some session_state) \<Rightarrow>
          if interview_finished session_state
          then (case final_report_screen session_state of Inl x \<Rightarrow> Inl x | Inr shown \<Rightarrow> Inr st)
          else if interview_started session_state
          then (case interview_screen w now t_report sid st session_state
                       (case act of PressSubmit formula edited_df \<Rightarrow> Some (formula, edited_df) | _ \<Rightarrow> None) of
                  Inl x \<Rightarrow> Inl x
                | Inr (state1, st1) \<Rightarrow> Inr st1)
          else Inr st)"

text \<open>
  The session states of the lifecycle: what \<^verbatim>\<open>create_new_session\<close> returns, what
  \<^verbatim>\<open>start_screen\<close> makes of it, what \<^verbatim>\<open>get_session_state\<close> reads back from a saved state, and
  what a submit in \<^verbatim>\<open>interview_screen\<close> (reached by \<^verbatim>\<open>main\<close> only for a started, unfinished
  session) makes of a state.
\<close>

inductive reachable :: "conversions \<Rightarrow> session_state \<Rightarrow> bool" for cv :: conversions where
  created: "reachable cv (fst (create_new_session redis_conn sid qs))"
| started: "pydantic w = cv \<Longrightarrow> start_screen w now sid redis_conn = Inr (state, redis1)
            \<Longrightarrow> reachable cv state"
| loaded: "reachable cv state \<Longrightarrow> deserialize_data cv (serialize_data state) = Inr state1
           \<Longrightarrow> reachable cv state1"
| submitted: "reachable cv state \<Longrightarrow> interview_started state \<Longrightarrow> \<not> interview_finished state
              \<Longrightarrow> pydantic w = cv
              \<Longrightarrow> interview_screen w t_end t_report sid st state (Some (formula, edited_df)) = Inr (state1, st1)
              \<Longrightarrow> reachable cv state1"

section \<open>Notions of the statements\<close>

text \<open>\<^verbatim>\<open>SELECT * FROM interview_results WHERE session_id = sid\<close>.\<close>

definition rows_for :: "string \<Rightarrow> report_row list \<Rightarrow> report_row list" where
  "rows_for sid rows = filter (\<lambda>r. r_session_id r = sid) rows"

text \<open>The evaluation an entry stands for, whichever way it is held.\<close>

fun entry_evaluation :: "evaluation_entry \<Rightarrow> evaluation" where
  "entry_evaluation (PlainDict d) = d"
| "entry_evaluation (Model m) = m"

text \<open>The state \<^verbatim>\<open>get_session_state\<close> builds from a saved state: every evaluation an
  \<^verbatim>\<open>Evaluation\<close> object.\<close>

definition rehydrated :: "session_state \<Rightarrow> session_state" where
  "rehydrated state = state\<lparr>evaluations := map (\<lambda>e. Model (entry_evaluation e)) (evaluations state)\<rparr>"

definition valid_scores :: "session_state \<Rightarrow> bool" where
  "valid_scores state =
     list_all (\<lambda>e. 1 \<le> score (entry_evaluation e) \<and> score (entry_evaluation e) \<le> 5) (evaluations state)"

text \<open>The invariant of the specification: answers, evaluations and index agree, and the
  session is finished exactly when the index has reached the number of questions.\<close>

definition lifecycle_invariant :: "session_state \<Rightarrow> bool" where
  "lifecycle_invariant state =
     (length (user_answers state) = current_question_index state \<and>
      length (evaluations state) = current_question_index state \<and>
      interview_finished state = (current_question_index state = length (questions state)))"

section \<open>Concrete inputs\<close>

text \<open>A catalog entry; agents whose chain is absent, raises, or returns a fixed answer;
  model answers that validate, carry a score out of range, or are no dict; worlds built
  from them; session states and report rows.\<close>

definition sum_question :: question where
  "sum_question =
     \<lparr>qid = ''q1'', topic = ''Formulas'', difficulty = ''Easy'',
      task_description = ''Add a Total row.'',
      starting_data = [(''A'', [JInt 1, JInt 2])],
      solution_data = [(''A'', [JInt 1, JInt 2, JInt 3])],
      evaluation_criteria = ''Uses SUM.''\<rparr>"

definition agent_without_chain :: agent where
  "agent_without_chain = \<lparr>chain_f = None, format_instructions = ''''\<rparr>"

definition agent_raising :: agent where
  "agent_raising = \<lparr>chain_f = Some (\<lambda>_. Inl (ChainError ''connection refused'')), format_instructions = ''''\<rparr>"

definition agent_answering :: "json \<Rightarrow> agent" where
  "agent_answering v = \<lparr>chain_f = Some (\<lambda>_. Inr v), format_instructions = ''''\<rparr>"

definition good_answer :: json where
  "good_answer = JObj [(''score'', JInt 4), (''is_correct'', JBool True), (''feedback'', JStr ''ok'')]"

definition overrated_answer :: json where
  "overrated_answer = JObj [(''score'', JInt 9), (''is_correct'', JBool True), (''feedback'', JStr ''ok'')]"

definition unparsed_answer :: json where
  "unparsed_answer = JStr ''I would give this a 4.''"

definition empty_world :: world where
  "empty_world = \<lparr>pydantic = no_conversions, excel_agent = agent_without_chain,
                   df_equals = (\<lambda>a b. a = b), pg_fault = NoFault, questions_file = Missing\<rparr>"

definition world_with_file :: "source \<Rightarrow> world" where
  "world_with_file src = empty_world\<lparr>questions_file := src\<rparr>"

definition two_records_one_bad :: json where
  "two_records_one_bad = JArr [question_model_dump sum_question, JObj []]"

definition bare_state :: session_state where
  "bare_state =
     \<lparr>session_id = ''s1'', current_question_index = 0, questions = [], user_answers = [],
      evaluations = [PlainDict \<lparr>score = 4, is_correct = True, feedback = ''good''\<rparr>,
                     PlainDict \<lparr>score = 5, is_correct = True, feedback = ''great''\<rparr>],
      interview_started = True, interview_finished = True,
      start_time = Some 1, end_time = Some 5\<rparr>"

definition first_report :: report_row where
  "first_report = \<lparr>r_session_id = ''s1'', r_start_time = Some 1, r_end_time = 5, r_final_score = 3,
                    r_feedback_summary = ''- fair'', r_full_transcript = serialize_data bare_state\<rparr>"

definition second_report :: report_row where
  "second_report = \<lparr>r_session_id = ''s1'', r_start_time = Some 2, r_end_time = 9, r_final_score = 4,
                     r_feedback_summary = ''- good'', r_full_transcript = serialize_data bare_state\<rparr>"

definition answering_world :: world where
  "answering_world =
     \<lparr>pydantic = no_conversions, excel_agent = agent_answering good_answer,
      df_equals = (\<lambda>a b. a = b), pg_fault = NoFault,
      questions_file = Parsed (JArr [question_model_dump sum_question])\<rparr>"

definition started_one :: session_state where
  "started_one = (initial_state ''s1'' [sum_question])\<lparr>interview_started := True, start_time := Some 1\<rparr>"

definition solved_table :: table where
  "solved_table = [(''A'', [JInt 1, JInt 2, JInt 3])]"

definition finished_one :: session_state where
  "finished_one =
     \<lparr>session_id = ''s1'', current_question_index = 1, questions = [sum_question],
      user_answers = [\<lparr>question_id = ''q1'', submitted_formula = ''=SUM(A1:A3)'',
                       final_dataframe = solved_table, is_state_correct = True\<rparr>],
      evaluations = [PlainDict \<lparr>score = 4, is_correct = True, feedback = ''ok''\<rparr>],
      interview_started = True, interview_finished = True,
      start_time = Some 1, end_time = Some 5\<rparr>"

definition started_empty :: session_state where
  "started_empty = (initial_state ''s1'' [])\<lparr>interview_started := True, start_time := Some 7\<rparr>"

section \<open>The evaluator: results and fallback\<close>

lemma evaluate_formula_cases:
  "evaluate_formula cv self q f =
     (case chain_f self of
        None \<Rightarrow> None
      | Some ch \<Rightarrow>
          (case ch (chain_input_of self q f) of
             Inl e \<Rightarrow> Some error_evaluation
           | Inr v \<Rightarrow> (case Evaluation_init cv v of Inl e \<Rightarrow> Some error_evaluation | Inr ev \<Rightarrow> Some ev)))"
  by (auto simp: evaluate_formula_def evaluate_formula_try_def subscript_def Evaluation_init_def
        validate_Evaluation_def required_def
      split: option.splits sum.splits json.splits)

lemma validate_Evaluation_range:
  "validate_Evaluation cv kw = Some ev \<Longrightarrow> 1 \<le> score ev \<and> score ev \<le> 5"
  by (auto simp: validate_Evaluation_def split: option.splits if_splits)

lemma Evaluation_init_range:
  "Evaluation_init cv v = Inr ev \<Longrightarrow> 1 \<le> score ev \<and> score ev \<le> 5"
  by (auto simp: Evaluation_init_def split: json.splits option.splits dest: validate_Evaluation_range)

lemma validate_Evaluation_out_of_range:
  "map_of kw ''score'' = Some v \<Longrightarrow> as_int cv v = Some n \<Longrightarrow> n < 1 \<or> 5 < n
   \<Longrightarrow> validate_Evaluation cv kw = None"
  by (auto simp: validate_Evaluation_def required_def split: option.splits)

lemma error_evaluation_fields:
  "score error_evaluation = 1" "is_correct error_evaluation = False"
  by (simp_all add: error_evaluation_def)

text \<open>
  Claim C10. Every \<^verbatim>\<open>Evaluation\<close> that \<^verbatim>\<open>evaluate_formula\<close> returns, the sentinel included,
  has a score between 1 and 5; and when the chain answers with a dict whose score
  validates to an integer outside that range, the answer is not returned: the result is
  the sentinel.
\<close>

theorem evaluate_formula_score_in_range:
  "(evaluate_formula cv self q f = Some ev \<longrightarrow> 1 \<le> score ev \<and> score ev \<le> 5) \<and>
   (chain_f self = Some ch \<and> ch (chain_input_of self q f) = Inr (JObj kw) \<and>
    map_of kw ''score'' = Some v \<and> as_int cv v = Some n \<and> (n < 1 \<or> 5 < n)
      \<longrightarrow> evaluate_formula cv self q f = Some error_evaluation)"
proof (intro conjI impI)
  assume "evaluate_formula cv self q f = Some ev"
  then have "ev = error_evaluation \<or> (\<exists>v. Evaluation_init cv v = Inr ev)"
    by (auto simp: evaluate_formula_cases split: option.splits sum.splits)
  then show "1 \<le> score ev" "score ev \<le> 5"
    using Evaluation_init_range [of cv _ ev] by (auto simp: error_evaluation_fields)
next
  assume h: "chain_f self = Some ch \<and> ch (chain_input_of self q f) = Inr (JObj kw) \<and>
    map_of kw ''score'' = Some v \<and> as_int cv v = Some n \<and> (n < 1 \<or> 5 < n)"
  then have "validate_Evaluation cv kw = None"
    using validate_Evaluation_out_of_range [of kw v cv n] by blast
  with h show "evaluate_formula cv self q f = Some error_evaluation"
    by (simp add: evaluate_formula_cases Evaluation_init_def)
qed

lemma good_answer_validates:
  "evaluate_formula no_conversions (agent_answering good_answer) sum_question ''=SUM(A1:A2)''
     = Some \<lparr>score = 4, is_correct = True, feedback = ''ok''\<rparr>"
  by (simp add: evaluate_formula_cases agent_answering_def good_answer_def Evaluation_init_def
      validate_Evaluation_def required_def as_int_def as_bool_def as_str_def)

theorem evaluate_formula_score_in_range_witness:
  "evaluate_formula no_conversions (agent_answering good_answer) sum_question ''=SUM(A1:A2)''
     = Some \<lparr>score = 4, is_correct = True, feedback = ''ok''\<rparr> \<and>
   (1::int) \<le> score \<lparr>score = 4, is_correct = True, feedback = ''ok''\<rparr> \<and>
   score \<lparr>score = 4, is_correct = True, feedback = ''ok''\<rparr> \<le> (5::int) \<and>
   as_int no_conversions (JInt 9) = Some 9 \<and> (5::int) < 9 \<and>
   evaluate_formula no_conversions (agent_answering overrated_answer) sum_question ''=SUM(A1:A2)''
     = Some error_evaluation"
proof -
  have h: "chain_f (agent_answering overrated_answer) = Some (\<lambda>_. Inr overrated_answer) \<and>
      (\<lambda>_. Inr overrated_answer)
        (chain_input_of (agent_answering overrated_answer) sum_question ''=SUM(A1:A2)'')
        = Inr (JObj [(''score'', JInt 9), (''is_correct'', JBool True), (''feedback'', JStr ''ok'')]) \<and>
      map_of [(''score'', JInt 9), (''is_correct'', JBool True), (''feedback'', JStr ''ok'')] ''score''
        = Some (JInt 9) \<and>
      as_int no_conversions (JInt 9) = Some 9 \<and> ((9::int) < 1 \<or> 5 < (9::int))"
    by (simp add: agent_answering_def overrated_answer_def as_int_def)
  show ?thesis
    using good_answer_validates h
      evaluate_formula_score_in_range
        [where cv = no_conversions and self = "agent_answering good_answer" and q = sum_question
           and f = "''=SUM(A1:A2)''" and ev = "\<lparr>score = 4, is_correct = True, feedback = ''ok''\<rparr>"]
      evaluate_formula_score_in_range
        [where cv = no_conversions and self = "agent_answering overrated_answer" and q = sum_question
           and f = "''=SUM(A1:A2)''" and ch = "\<lambda>_. Inr overrated_answer"
           and kw = "[(''score'', JInt 9), (''is_correct'', JBool True), (''feedback'', JStr ''ok'')]"
           and v = "JInt 9" and n = 9]
    by (simp add: as_int_def)
qed

text \<open>
  Claim C2, as amended. Without a chain (the model connector could not be constructed)
  \<^verbatim>\<open>evaluate_formula\<close> returns \<^verbatim>\<open>None\<close>. With a chain it always returns an
  \<^verbatim>\<open>Evaluation\<close>, and whenever the body of the \<^verbatim>\<open>try\<close> raises (the chain raises, or its
  answer does not construct an \<^verbatim>\<open>Evaluation\<close>) that result is the sentinel with score 1,
  \<^verbatim>\<open>is_correct = False\<close> and the fixed message.
\<close>

theorem evaluate_formula_fallback:
  "(chain_f self = None \<longrightarrow> evaluate_formula cv self q f = None) \<and>
   (chain_f self = Some ch \<longrightarrow>
      (\<exists>ev. evaluate_formula cv self q f = Some ev) \<and>
      (evaluate_formula_try cv self ch q f = Inl e \<longrightarrow>
         evaluate_formula cv self q f = Some error_evaluation) \<and>
      (ch (chain_input_of self q f) = Inl e \<longrightarrow>
         evaluate_formula cv self q f = Some error_evaluation) \<and>
      (ch (chain_input_of self q f) = Inr v \<and> Evaluation_init cv v = Inl e \<longrightarrow>
         evaluate_formula cv self q f = Some error_evaluation))"
proof (intro conjI impI)
  assume "chain_f self = None"
  then show "evaluate_formula cv self q f = None"
    by (simp add: evaluate_formula_def)
next
  assume "chain_f self = Some ch"
  then show "\<exists>ev. evaluate_formula cv self q f = Some ev"
    by (simp add: evaluate_formula_def split: sum.splits)
next
  assume "chain_f self = Some ch" "evaluate_formula_try cv self ch q f = Inl e"
  then show "evaluate_formula cv self q f = Some error_evaluation"
    by (simp add: evaluate_formula_def)
next
  assume "chain_f self = Some ch" "ch (chain_input_of self q f) = Inl e"
  then show "evaluate_formula cv self q f = Some error_evaluation"
    by (simp add: evaluate_formula_cases)
next
  assume "chain_f self = Some ch" "ch (chain_input_of self q f) = Inr v \<and> Evaluation_init cv v = Inl e"
  then show "evaluate_formula cv self q f = Some error_evaluation"
    by (simp add: evaluate_formula_cases)
qed

theorem evaluate_formula_fallback_witness:
  "evaluate_formula no_conversions agent_without_chain sum_question ''=SUM(A1:A2)'' = None \<and>
   evaluate_formula no_conversions agent_raising sum_question ''=SUM(A1:A2)'' = Some error_evaluation \<and>
   Evaluation_init no_conversions unparsed_answer = Inl TypeError \<and>
   evaluate_formula no_conversions (agent_answering unparsed_answer) sum_question ''=SUM(A1:A2)''
     = Some error_evaluation"
proof -
  have a: "chain_f agent_without_chain = None"
    by (simp add: agent_without_chain_def)
  have b: "chain_f agent_raising = Some (\<lambda>_. Inl (ChainError ''connection refused''))"
    by (simp add: agent_raising_def)
  have c: "chain_f (agent_answering unparsed_answer) = Some (\<lambda>_. Inr unparsed_answer)"
    by (simp add: agent_answering_def)
  have d: "Evaluation_init no_conversions unparsed_answer = Inl TypeError"
    by (simp add: Evaluation_init_def unparsed_answer_def)
  show ?thesis
    using a b c d
      evaluate_formula_fallback [where self = agent_without_chain and cv = no_conversions
        and q = sum_question and f = "''=SUM(A1:A2)''"]
      evaluate_formula_fallback [where self = agent_raising and cv = no_conversions
        and q = sum_question and f = "''=SUM(A1:A2)''"
        and ch = "\<lambda>_. Inl (ChainError ''connection refused'')" and e = "ChainError ''connection refused''"]
      evaluate_formula_fallback [where self = "agent_answering unparsed_answer" and cv = no_conversions
        and q = sum_question and f = "''=SUM(A1:A2)''"
        and ch = "\<lambda>_. Inr unparsed_answer" and v = unparsed_answer and e = TypeError]
    by simp
qed

text \<open>The claim as stated fails: with no chain the result is absent.\<close>

theorem evaluate_formula_absent_counterexample:
  "evaluate_formula no_conversions agent_without_chain sum_question ''=SUM(A1:A2)'' = None"
  by (simp add: evaluate_formula_def agent_without_chain_def)

section \<open>The question catalog: what a load returns\<close>

lemma questions_of_all:
  "questions_of cv items = Inr qs \<Longrightarrow> list_all2 (\<lambda>x q. Question_init cv x = Inr q) items qs"
  by (induction items arbitrary: qs) (auto split: sum.splits)

lemma questions_of_first_failure:
  "questions_of cv pre = Inr qs \<Longrightarrow> Question_init cv x = Inl e
   \<Longrightarrow> questions_of cv (pre @ x # rest) = Inl e"
  by (induction pre arbitrary: qs) (auto split: sum.splits)

lemma Question_init_error:
  "Question_init cv x = Inl e \<Longrightarrow> e = TypeError \<or> e = ValidationError"
  by (auto simp: Question_init_def split: json.splits option.splits)

lemma questions_of_error:
  "questions_of cv items = Inl e \<Longrightarrow> e = TypeError \<or> e = ValidationError"
  by (induction items) (auto split: sum.splits dest: Question_init_error)

lemma questions_of_mappings:
  "\<forall>x\<in>set items. \<exists>kw. x = JObj kw \<Longrightarrow> questions_of cv items = Inl e \<Longrightarrow> e = ValidationError"
  by (induction items) (auto simp: Question_init_def split: sum.splits option.splits)

lemma questions_of_invalid:
  "x \<in> set items \<Longrightarrow> Question_init cv x = Inl e \<Longrightarrow> \<exists>e'. questions_of cv items = Inl e'"
  by (induction items) (auto split: sum.splits)

lemma questions_of_strings:
  "questions_of cv (map (\<lambda>x. JStr (g x)) xs) = (if xs = [] then Inr [] else Inl TypeError)"
  by (cases xs) (auto simp: Question_init_def)

lemma load_questions_not_a_list:
  "\<forall>items. doc \<noteq> JArr items \<Longrightarrow> load_questions cv (Parsed doc) = Inr []"
  by (cases doc)
     (auto simp: load_questions_def load_questions_try_def py_iter_def questions_of_strings)

lemma load_questions_list:
  "load_questions cv (Parsed (JArr items)) =
     (case questions_of cv items of
        Inl e \<Rightarrow> if e = TypeError then Inr [] else Inl ValidationError
      | Inr qs \<Rightarrow> Inr qs)"
  by (auto simp: load_questions_def load_questions_try_def py_iter_def split: sum.splits
      dest: questions_of_error)

text \<open>
  Claim C9, as amended. \<^verbatim>\<open>load_questions\<close> returns the empty list when the file is
  missing, when it is not JSON, when the document is not a list, and when the first
  element of the list that does not construct a \<^verbatim>\<open>Question\<close> is not a mapping
  (\<^verbatim>\<open>TypeError\<close>); it lets \<^verbatim>\<open>ValidationError\<close> leave when the first such element is a
  mapping that fails validation.
\<close>

theorem load_questions_asymmetry:
  "load_questions cv Missing = Inr [] \<and>
   load_questions cv NotJSON = Inr [] \<and>
   ((\<forall>items. doc \<noteq> JArr items) \<longrightarrow> load_questions cv (Parsed doc) = Inr []) \<and>
   (questions_of cv pre = Inr qs \<and> (\<forall>kw. x \<noteq> JObj kw)
      \<longrightarrow> load_questions cv (Parsed (JArr (pre @ x # rest))) = Inr []) \<and>
   (questions_of cv pre = Inr qs \<and> validate_Question cv kw = None
      \<longrightarrow> load_questions cv (Parsed (JArr (pre @ JObj kw # rest))) = Inl ValidationError)"
proof (intro conjI impI)
  show "load_questions cv Missing = Inr []" "load_questions cv NotJSON = Inr []"
    by (simp_all add: load_questions_def load_questions_try_def)
next
  assume "\<forall>items. doc \<noteq> JArr items"
  then show "load_questions cv (Parsed doc) = Inr []"
    by (rule load_questions_not_a_list)
next
  assume h: "questions_of cv pre = Inr qs \<and> (\<forall>kw. x \<noteq> JObj kw)"
  then have "Question_init cv x = Inl TypeError"
    by (cases x) (auto simp: Question_init_def)
  with h have "questions_of cv (pre @ x # rest) = Inl TypeError"
    using questions_of_first_failure by blast
  then show "load_questions cv (Parsed (JArr (pre @ x # rest))) = Inr []"
    by (simp add: load_questions_list)
next
  assume h: "questions_of cv pre = Inr qs \<and> validate_Question cv kw = None"
  then have "Question_init cv (JObj kw) = Inl ValidationError"
    by (simp add: Question_init_def)
  with h have "questions_of cv (pre @ JObj kw # rest) = Inl ValidationError"
    using questions_of_first_failure by blast
  then show "load_questions cv (Parsed (JArr (pre @ JObj kw # rest))) = Inl ValidationError"
    by (simp add: load_questions_list)
qed

lemma as_columns_dump: "as_columns (map (\<lambda>(k, xs). (k, JArr xs)) t) = Some t"
  by (induction t) (auto simp: as_list_def)

lemma as_table_dump: "as_table (dump_table t) = Some t"
  by (simp add: as_table_def dump_table_def as_columns_dump)

lemma validate_Question_dump:
  "question_model_dump q = JObj kw \<Longrightarrow> validate_Question cv kw = Some q"
  by (auto simp: question_model_dump_def validate_Question_def required_def as_str_def as_table_dump)

lemma Question_init_dump: "Question_init cv (question_model_dump q) = Inr q"
proof -
  obtain kw where kw: "question_model_dump q = JObj kw"
    by (simp add: question_model_dump_def)
  then show ?thesis
    by (simp add: Question_init_def validate_Question_dump)
qed

lemma questions_of_dump: "questions_of cv (map question_model_dump qs) = Inr qs"
  by (induction qs) (simp_all add: Question_init_dump)

theorem load_questions_asymmetry_witness:
  "load_questions no_conversions (Parsed (JInt 3)) = Inr [] \<and>
   load_questions no_conversions (Parsed (JArr ([] @ JInt 5 # [JObj []]))) = Inr [] \<and>
   load_questions no_conversions (Parsed (JArr ([] @ JObj [] # [JInt 5]))) = Inl ValidationError"
proof -
  have a: "\<forall>items. JInt 3 \<noteq> JArr items" by simp
  have b: "questions_of no_conversions [] = Inr [] \<and> (\<forall>kw. JInt 5 \<noteq> JObj kw)" by simp
  have c: "questions_of no_conversions [] = Inr [] \<and> validate_Question no_conversions [] = None"
    by (simp add: validate_Question_def required_def)
  show ?thesis
    using a b c
      load_questions_asymmetry [where cv = no_conversions and doc = "JInt 3" and pre = "[]" and qs = "[]"
        and x = "JInt 5" and rest = "[JObj []]"]
      load_questions_asymmetry [where cv = no_conversions and doc = "JInt 3" and pre = "[]" and qs = "[]"
        and kw = "[]" and rest = "[JInt 5]"]
    by simp
qed

text \<open>The claim as stated fails on a list that is not a list of mappings: here the first
  element is a mapping without fields, so \<^verbatim>\<open>ValidationError\<close> leaves before the number is
  reached.\<close>

theorem load_questions_mixed_list_counterexample:
  "load_questions no_conversions (Parsed (JArr [JObj [], JInt 5])) = Inl ValidationError"
  by (simp add: load_questions_list Question_init_def validate_Question_def required_def)

lemma load_questions_error:
  "load_questions cv src = Inl e \<Longrightarrow> e = ValidationError"
  by (auto simp: load_questions_def load_questions_try_def py_iter_def questions_of_strings
      split: sum.splits source.splits json.splits if_splits dest: questions_of_error)

lemma load_questions_result:
  "load_questions cv src = Inr qs \<Longrightarrow>
     qs = [] \<or> (\<exists>items. src = Parsed (JArr items) \<and> list_all2 (\<lambda>x q. Question_init cv x = Inr q) items qs)"
proof (cases "\<exists>items. src = Parsed (JArr items)")
  case True
  assume r: "load_questions cv src = Inr qs"
  from True obtain items where s: "src = Parsed (JArr items)" by blast
  show ?thesis
  proof (cases "questions_of cv items")
    case (Inl e)
    with r s show ?thesis by (simp add: load_questions_list split: if_splits)
  next
    case (Inr qs')
    with r s have "qs' = qs" by (simp add: load_questions_list)
    with Inr s show ?thesis using questions_of_all by blast
  qed
next
  case False
  assume r: "load_questions cv src = Inr qs"
  show ?thesis
  proof (cases src)
    case Missing
    with r show ?thesis by (simp add: load_questions_def load_questions_try_def)
  next
    case NotJSON
    with r show ?thesis by (simp add: load_questions_def load_questions_try_def)
  next
    case (Parsed doc)
    with False have "\<forall>items. doc \<noteq> JArr items" by simp
    then have "load_questions cv (Parsed doc) = Inr []" by (rule load_questions_not_a_list)
    with r Parsed show ?thesis by simp
  qed
qed

lemma start_screen_unloaded:
  "load_questions (pydantic w) (questions_file w) = Inl e \<Longrightarrow> start_screen w now sid redis_conn = Inl e"
  by (simp add: start_screen_def)

lemma start_screen_loaded:
  "load_questions (pydantic w) (questions_file w) = Inr qs \<Longrightarrow>
   start_screen w now sid redis_conn =
     Inr ((initial_state sid qs)\<lparr>interview_started := True, start_time := Some now\<rparr>,
          redis_conn(session_key sid \<mapsto>
            serialize_data ((initial_state sid qs)\<lparr>interview_started := True, start_time := Some now\<rparr>)))"
  by (simp add: start_screen_def create_new_session_def save_session_state_def)

text \<open>
  Claim C3, as amended. A load that returns gives the empty list or every record of the
  document, validated, in order: never a proper part. In a list of mappings one record
  that fails validation makes the load raise \<^verbatim>\<open>ValidationError\<close>. Whenever the load raises,
  \<^verbatim>\<open>start_screen\<close> raises before it creates a session. A missing file and a file that is
  not JSON do not raise: \<^verbatim>\<open>start_screen\<close> then stores a started session without questions.
\<close>

theorem load_questions_all_or_nothing:
  "(load_questions cv src = Inr qs \<longrightarrow>
      qs = [] \<or> (\<exists>items. src = Parsed (JArr items) \<and>
                   list_all2 (\<lambda>x q. Question_init cv x = Inr q) items qs)) \<and>
   ((\<forall>x\<in>set items. \<exists>kw. x = JObj kw) \<and> x \<in> set items \<and> Question_init cv x = Inl e
      \<longrightarrow> load_questions cv (Parsed (JArr items)) = Inl ValidationError) \<and>
   (load_questions (pydantic w) (questions_file w) = Inl e' \<longrightarrow>
      e' = ValidationError \<and> start_screen w now sid redis_conn = Inl ValidationError \<and>
      (fst st (session_key sid) = None \<longrightarrow> main w now t sid st PressStart = Inl ValidationError)) \<and>
   (questions_file w = Missing \<or> questions_file w = NotJSON \<longrightarrow>
      start_screen w now sid redis_conn =
        Inr ((initial_state sid [])\<lparr>interview_started := True, start_time := Some now\<rparr>,
             redis_conn(session_key sid \<mapsto>
               serialize_data ((initial_state sid [])\<lparr>interview_started := True, start_time := Some now\<rparr>))))"
proof (intro conjI impI)
  assume "load_questions cv src = Inr qs"
  then show "qs = [] \<or> (\<exists>items. src = Parsed (JArr items) \<and>
                   list_all2 (\<lambda>x q. Question_init cv x = Inr q) items qs)"
    by (rule load_questions_result)
next
  assume h: "(\<forall>x\<in>set items. \<exists>kw. x = JObj kw) \<and> x \<in> set items \<and> Question_init cv x = Inl e"
  then obtain e1 where e1: "questions_of cv items = Inl e1"
    using questions_of_invalid by blast
  with h have "e1 = ValidationError"
    using questions_of_mappings by blast
  with e1 show "load_questions cv (Parsed (JArr items)) = Inl ValidationError"
    by (simp add: load_questions_list)
next
  assume h: "load_questions (pydantic w) (questions_file w) = Inl e'"
  then show v: "e' = ValidationError" by (rule load_questions_error)
  from h v show s: "start_screen w now sid redis_conn = Inl ValidationError"
    by (simp add: start_screen_unloaded)
  assume "fst st (session_key sid) = None"
  with h v show "main w now t sid st PressStart = Inl ValidationError"
    by (simp add: main_def get_session_state_def start_screen_unloaded)
next
  assume "questions_file w = Missing \<or> questions_file w = NotJSON"
  then have "load_questions (pydantic w) (questions_file w) = Inr []"
    by (auto simp: load_questions_def load_questions_try_def)
  then show "start_screen w now sid redis_conn =
        Inr ((initial_state sid [])\<lparr>interview_started := True, start_time := Some now\<rparr>,
             redis_conn(session_key sid \<mapsto>
               serialize_data ((initial_state sid [])\<lparr>interview_started := True, start_time := Some now\<rparr>)))"
    by (rule start_screen_loaded)
qed

lemma world_with_file_fields:
  "pydantic (world_with_file src) = no_conversions" "questions_file (world_with_file src) = src"
  by (simp_all add: world_with_file_def empty_world_def)

theorem load_questions_all_or_nothing_witness:
  "load_questions no_conversions (Parsed (JArr [question_model_dump sum_question])) = Inr [sum_question] \<and>
   list_all2 (\<lambda>x q. Question_init no_conversions x = Inr q) [question_model_dump sum_question] [sum_question] \<and>
   Question_init no_conversions (JObj []) = Inl ValidationError \<and>
   load_questions no_conversions (Parsed two_records_one_bad) = Inl ValidationError \<and>
   start_screen (world_with_file (Parsed two_records_one_bad)) 7 ''s1'' Map.empty = Inl ValidationError \<and>
   main (world_with_file (Parsed two_records_one_bad)) 7 8 ''s1'' (Map.empty, None) PressStart
     = Inl ValidationError \<and>
   start_screen (world_with_file Missing) 7 ''s1'' Map.empty =
     Inr ((initial_state ''s1'' [])\<lparr>interview_started := True, start_time := Some 7\<rparr>,
          Map.empty(session_key ''s1'' \<mapsto>
            serialize_data ((initial_state ''s1'' [])\<lparr>interview_started := True, start_time := Some 7\<rparr>)))"
proof -
  have a: "load_questions no_conversions (Parsed (JArr [question_model_dump sum_question])) = Inr [sum_question]"
    by (simp add: load_questions_list Question_init_dump)
  have b: "Question_init no_conversions (JObj []) = Inl ValidationError"
    by (simp add: Question_init_def validate_Question_def required_def)
  have c: "(\<forall>x\<in>set [question_model_dump sum_question, JObj []]. \<exists>kw. x = JObj kw) \<and>
           JObj [] \<in> set [question_model_dump sum_question, JObj []]"
    by (simp add: question_model_dump_def)
  have d: "load_questions (pydantic (world_with_file (Parsed two_records_one_bad)))
             (questions_file (world_with_file (Parsed two_records_one_bad))) = Inl ValidationError"
    by (simp add: world_with_file_fields two_records_one_bad_def load_questions_list
        Question_init_dump b)
  have e: "fst (Map.empty :: redis, None :: pg_pool) (session_key ''s1'') = None"
    by simp
  have f: "list_all2 (\<lambda>x q. Question_init no_conversions x = Inr q) [question_model_dump sum_question] [sum_question]"
    using a load_questions_all_or_nothing [where cv = no_conversions
        and src = "Parsed (JArr [question_model_dump sum_question])" and qs = "[sum_question]"]
    by auto
  have g: "load_questions no_conversions (Parsed two_records_one_bad) = Inl ValidationError"
    using b c load_questions_all_or_nothing [where cv = no_conversions
        and items = "[question_model_dump sum_question, JObj []]" and x = "JObj []" and e = ValidationError]
    by (simp add: two_records_one_bad_def)
  have h: "start_screen (world_with_file (Parsed two_records_one_bad)) 7 ''s1'' Map.empty = Inl ValidationError \<and>
     main (world_with_file (Parsed two_records_one_bad)) 7 8 ''s1'' (Map.empty, None) PressStart
       = Inl ValidationError"
    using d e load_questions_all_or_nothing [where w = "world_with_file (Parsed two_records_one_bad)"
        and e' = ValidationError and now = 7 and t = 8 and sid = "''s1''" and redis_conn = Map.empty
        and st = "(Map.empty, None)"]
    by simp
  have i: "start_screen (world_with_file Missing) 7 ''s1'' Map.empty =
     Inr ((initial_state ''s1'' [])\<lparr>interview_started := True, start_time := Some 7\<rparr>,
          Map.empty(session_key ''s1'' \<mapsto>
            serialize_data ((initial_state ''s1'' [])\<lparr>interview_started := True, start_time := Some 7\<rparr>)))"
    using load_questions_all_or_nothing [where w = "world_with_file Missing"
        and now = 7 and sid = "''s1''" and redis_conn = Map.empty]
    by (simp add: world_with_file_fields)
  from a b f g h i show ?thesis by simp
qed

text \<open>The claim as stated fails for a missing file: the load returns the empty list and
  the start transition creates a session.\<close>

theorem load_questions_missing_counterexample:
  "load_questions no_conversions Missing = Inr [] \<and>
   (case start_screen (world_with_file Missing) 7 ''s1'' Map.empty of
      Inl e \<Rightarrow> False
    | Inr (state, redis1) \<Rightarrow>
        redis1 (session_key ''s1'') = Some (serialize_data state) \<and> questions state = [] \<and>
        interview_started state)"
proof -
  have "load_questions no_conversions Missing = Inr []"
    by (simp add: load_questions_def load_questions_try_def)
  then show ?thesis
    by (simp add: start_screen_loaded world_with_file_fields initial_state_def)
qed

section \<open>The report store: inserting twice\<close>

lemma rows_for_upsert_same:
  "rows_for (r_session_id x) (upsert_report x rows) =
     (case rows_for (r_session_id x) rows of
        [] \<Rightarrow> [x]
      | old # others \<Rightarrow>
          old\<lparr>r_end_time := r_end_time x, r_final_score := r_final_score x,
              r_feedback_summary := r_feedback_summary x,
              r_full_transcript := r_full_transcript x\<rparr> # others)"
  by (induction rows) (auto simp: rows_for_def)

lemma rows_for_upsert_other:
  "sid \<noteq> r_session_id x \<Longrightarrow> rows_for sid (upsert_report x rows) = rows_for sid rows"
  by (induction rows) (auto simp: rows_for_def)

lemma keys_upsert:
  "set (map r_session_id (upsert_report x rows)) = insert (r_session_id x) (set (map r_session_id rows))"
  by (induction rows) auto

lemma distinct_upsert:
  "distinct (map r_session_id rows) \<Longrightarrow> distinct (map r_session_id (upsert_report x rows))"
proof (induction rows)
  case Nil
  then show ?case by simp
next
  case (Cons r rows)
  have "r_session_id r \<noteq> r_session_id x \<Longrightarrow>
        r_session_id r \<notin> set (map r_session_id (upsert_report x rows))"
    using Cons.prems by (simp add: keys_upsert del: set_map)
  with Cons show ?case by auto
qed

lemma rows_for_absent:
  "sid \<notin> set (map r_session_id rows) \<Longrightarrow> rows_for sid rows = []"
  by (induction rows) (auto simp: rows_for_def)

lemma rows_for_distinct:
  "distinct (map r_session_id rows) \<Longrightarrow> rows_for sid rows = [] \<or> (\<exists>r. rows_for sid rows = [r])"
proof (induction rows)
  case Nil
  then show ?case by (simp add: rows_for_def)
next
  case (Cons r rows)
  show ?case
  proof (cases "r_session_id r = sid")
    case True
    with Cons.prems have "rows_for sid rows = []"
      by (intro rows_for_absent) auto
    with True show ?thesis by (simp add: rows_for_def)
  next
    case False
    with Cons show ?thesis by (simp add: rows_for_def)
  qed
qed

lemma rows_for_key:
  assumes "rows_for sid rows = r # others"
  shows "r_session_id r = sid"
proof -
  from assms have "r \<in> set (rows_for sid rows)" by simp
  then show ?thesis by (simp add: rows_for_def)
qed

lemma upsert_twice_rows:
  assumes k: "r_session_id y = r_session_id x"
  shows "rows_for (r_session_id x) (upsert_report y (upsert_report x rows)) =
     (case rows_for (r_session_id x) rows of
        [] \<Rightarrow> [x\<lparr>r_end_time := r_end_time y, r_final_score := r_final_score y,
                 r_feedback_summary := r_feedback_summary y,
                 r_full_transcript := r_full_transcript y\<rparr>]
      | old # others \<Rightarrow>
          old\<lparr>r_end_time := r_end_time y, r_final_score := r_final_score y,
              r_feedback_summary := r_feedback_summary y,
              r_full_transcript := r_full_transcript y\<rparr> # others)"
proof -
  have 1: "rows_for (r_session_id x) (upsert_report y (upsert_report x rows)) =
     (case rows_for (r_session_id x) (upsert_report x rows) of
        [] \<Rightarrow> [y]
      | old # others \<Rightarrow>
          old\<lparr>r_end_time := r_end_time y, r_final_score := r_final_score y,
              r_feedback_summary := r_feedback_summary y,
              r_full_transcript := r_full_transcript y\<rparr> # others)"
    using rows_for_upsert_same [of y "upsert_report x rows"] by (simp only: k)
  have 2: "rows_for (r_session_id x) (upsert_report x rows) =
     (case rows_for (r_session_id x) rows of
        [] \<Rightarrow> [x]
      | old # others \<Rightarrow>
          old\<lparr>r_end_time := r_end_time x, r_final_score := r_final_score x,
              r_feedback_summary := r_feedback_summary x,
              r_full_transcript := r_full_transcript x\<rparr> # others)"
    by (rule rows_for_upsert_same)
  show ?thesis
  proof (cases "rows_for (r_session_id x) rows")
    case Nil
    with 2 have "rows_for (r_session_id x) (upsert_report x rows) = [x]" by simp
    with 1 Nil show ?thesis by simp
  next
    case (Cons old others)
    with 2 have "rows_for (r_session_id x) (upsert_report x rows) =
        old\<lparr>r_end_time := r_end_time x, r_final_score := r_final_score x,
              r_feedback_summary := r_feedback_summary x,
              r_full_transcript := r_full_transcript x\<rparr> # others" by simp
    with 1 Cons show ?thesis by simp
  qed
qed

text \<open>
  Claim C6, as amended. In a table whose \<^verbatim>\<open>session_id\<close>s are distinct, two upserts with the
  same \<^verbatim>\<open>session_id\<close> leave the keys distinct and exactly one row for that identifier. Its
  \<^verbatim>\<open>end_time\<close>, \<^verbatim>\<open>final_score\<close>, \<^verbatim>\<open>feedback_summary\<close> and \<^verbatim>\<open>full_transcript\<close> are the
  second call's; its \<^verbatim>\<open>start_time\<close> is not: it is the one of the row that was there before,
  or the first call's when there was none.
\<close>

theorem upsert_report_twice:
  "distinct (map r_session_id rows) \<and> r_session_id second = r_session_id first \<longrightarrow>
     distinct (map r_session_id (upsert_report second (upsert_report first rows))) \<and>
     (\<exists>row. rows_for (r_session_id first) (upsert_report second (upsert_report first rows)) = [row] \<and>
        r_session_id row = r_session_id second \<and>
        r_end_time row = r_end_time second \<and>
        r_final_score row = r_final_score second \<and>
        r_feedback_summary row = r_feedback_summary second \<and>
        r_full_transcript row = r_full_transcript second \<and>
        r_start_time row =
          (case rows_for (r_session_id first) rows of
             [] \<Rightarrow> r_start_time first
           | old # others \<Rightarrow> r_start_time old))"
proof (intro impI conjI)
  assume h: "distinct (map r_session_id rows) \<and> r_session_id second = r_session_id first"
  then show "distinct (map r_session_id (upsert_report second (upsert_report first rows)))"
    by (simp add: distinct_upsert)
  from h consider "rows_for (r_session_id first) rows = []"
    | r where "rows_for (r_session_id first) rows = [r]"
    using rows_for_distinct by blast
  then show "\<exists>row. rows_for (r_session_id first) (upsert_report second (upsert_report first rows)) = [row] \<and>
        r_session_id row = r_session_id second \<and>
        r_end_time row = r_end_time second \<and>
        r_final_score row = r_final_score second \<and>
        r_feedback_summary row = r_feedback_summary second \<and>
        r_full_transcript row = r_full_transcript second \<and>
        r_start_time row =
          (case rows_for (r_session_id first) rows of
             [] \<Rightarrow> r_start_time first
           | old # others \<Rightarrow> r_start_time old)"
  proof cases
    case 1
    with h show ?thesis by (simp add: upsert_twice_rows)
  next
    case 2
    then have "r_session_id r = r_session_id first" by (rule rows_for_key)
    with h 2 show ?thesis by (simp add: upsert_twice_rows)
  qed
qed

theorem upsert_report_twice_witness:
  "distinct (map r_session_id ([] :: report_row list)) \<and>
   r_session_id second_report = r_session_id first_report \<and>
   rows_for ''s1'' (upsert_report second_report (upsert_report first_report [])) =
     [second_report\<lparr>r_start_time := Some 1\<rparr>]"
proof -
  have h: "distinct (map r_session_id ([] :: report_row list)) \<and>
           r_session_id second_report = r_session_id first_report"
    by (simp add: first_report_def second_report_def)
  have "rows_for ''s1'' (upsert_report second_report (upsert_report first_report [])) =
     [second_report\<lparr>r_start_time := Some 1\<rparr>]"
    using h upsert_report_twice [where rows = "[]" and first = first_report and second = second_report]
    by (auto simp: first_report_def second_report_def rows_for_def)
  with h show ?thesis by simp
qed

text \<open>The claim as stated fails for \<^verbatim>\<open>start_time\<close>: the second call brings 2, the row
  keeps 1.\<close>

theorem upsert_report_start_time_counterexample:
  "map r_start_time (rows_for ''s1'' (upsert_report second_report (upsert_report first_report [])))
     = [Some 1] \<and>
   r_start_time second_report = Some 2"
  by (simp add: first_report_def second_report_def rows_for_def)

section \<open>The report store: the row a save writes\<close>

text \<open>When \<^verbatim>\<open>save_interview_report\<close> gets as far as executing its statement, this is the
  row it sends: \<^verbatim>\<open>end_time\<close> is the clock reading taken inside the call.\<close>

lemma get_scores_plain:
  "get_scores es = Inr ns \<Longrightarrow> ns = map (score \<circ> entry_evaluation) es"
  by (induction es arbitrary: ns rule: get_scores.induct) (auto split: sum.splits)

lemma get_feedback_plain:
  "get_feedback es = Inr fs \<Longrightarrow> fs = map (feedback \<circ> entry_evaluation) es"
  by (induction es arbitrary: fs rule: get_feedback.induct) (auto split: sum.splits)

lemma save_interview_report_done:
  assumes "save_interview_report NoFault now (Some rows) state = Inr pool1"
  shows "pool1 = Some (upsert_report
            \<lparr>r_session_id = session_id state, r_start_time = start_time state, r_end_time = now,
             r_final_score = mean_score (map (score \<circ> entry_evaluation) (evaluations state)),
             r_feedback_summary = summarize (map (feedback \<circ> entry_evaluation) (evaluations state)),
             r_full_transcript = serialize_data state\<rparr> rows)"
proof -
  from assms obtain scores where s: "get_scores (evaluations state) = Inr scores"
    by (auto simp: save_interview_report_def split: sum.splits)
  from assms s obtain items where f: "get_feedback (evaluations state) = Inr items"
    by (auto simp: save_interview_report_def split: sum.splits)
  from assms s f obtain transcript where t: "json_dumps state = Inr transcript"
    by (auto simp: save_interview_report_def split: sum.splits)
  from t have t': "transcript = serialize_data state"
    by (simp add: json_dumps_def split: if_splits)
  from assms s f t t' show ?thesis
    by (simp add: save_interview_report_def get_scores_plain [OF s] get_feedback_plain [OF f])
qed

section \<open>The session store: reading back what was saved\<close>

lemma Evaluation_init_dump:
  "1 \<le> score e \<Longrightarrow> score e \<le> 5 \<Longrightarrow> Evaluation_init cv (evaluation_model_dump e) = Inr e"
  by (simp add: Evaluation_init_def evaluation_model_dump_def validate_Evaluation_def required_def
      as_int_def as_bool_def as_str_def)

lemma evaluations_of_dump:
  "list_all (\<lambda>e. 1 \<le> score (entry_evaluation e) \<and> score (entry_evaluation e) \<le> 5) es \<Longrightarrow>
   evaluations_of cv (map entry_dump es) = Inr (map entry_evaluation es)"
proof (induction es)
  case Nil
  then show ?case by simp
next
  case (Cons e es)
  then have "Evaluation_init cv (entry_dump e) = Inr (entry_evaluation e)"
    by (cases e) (simp_all add: entry_dump_def Evaluation_init_dump)
  with Cons show ?case by simp
qed

lemma evaluations_of_length:
  "evaluations_of cv xs = Inr evs \<Longrightarrow> length evs = length xs"
  by (induction xs arbitrary: evs) (auto split: sum.splits)

lemma deserialize_serialize:
  "valid_scores state \<Longrightarrow> deserialize_data cv (serialize_data state) = Inr (rehydrated state)"
  by (simp add: deserialize_data_def serialize_data_def questions_of_dump evaluations_of_dump
      valid_scores_def rehydrated_def)

lemma entry_dump_rehydrated: "entry_dump (Model (entry_evaluation e)) = entry_dump e"
  by (cases e) (simp_all add: entry_dump_def)

lemma serialize_rehydrated: "serialize_data (rehydrated state) = serialize_data state"
  by (simp add: serialize_data_def rehydrated_def entry_dump_rehydrated o_def)

lemma get_after_save:
  "valid_scores state \<Longrightarrow>
   get_session_state cv (save_session_state redis_conn sid state) sid = Inr (Some (rehydrated state))"
  by (simp add: get_session_state_def save_session_state_def deserialize_serialize)

lemma rehydrated_same:
  "rehydrated state = state \<longleftrightarrow> list_all (\<lambda>e. \<not> is_plain e) (evaluations state)"
proof -
  have "map (\<lambda>e. Model (entry_evaluation e)) es = es \<longleftrightarrow> list_all (\<lambda>e. \<not> is_plain e) es" for es
  proof (induction es)
    case Nil
    then show ?case by simp
  next
    case (Cons e es)
    then show ?case by (cases e) auto
  qed
  moreover have "rehydrated state = state \<longleftrightarrow>
      map (\<lambda>e. Model (entry_evaluation e)) (evaluations state) = evaluations state"
    unfolding rehydrated_def
    by (metis (no_types, lifting) session.surjective session.update_convs(5) session.select_convs(5))
  ultimately show ?thesis by simp
qed

lemma good_answer_for_sum:
  "evaluate_formula no_conversions (agent_answering good_answer) sum_question ''=SUM(A1:A3)''
     = Some \<lparr>score = 4, is_correct = True, feedback = ''ok''\<rparr>"
  by (simp add: evaluate_formula_cases agent_answering_def good_answer_def Evaluation_init_def
      validate_Evaluation_def required_def as_int_def as_bool_def as_str_def)

lemma sum_question_fields:
  "starting_data sum_question = [(''A'', [JInt 1, JInt 2])]"
  "solution_data sum_question = [(''A'', [JInt 1, JInt 2, JInt 3])]"
  "qid sum_question = ''q1''"
  by (simp_all add: sum_question_def)

lemma last_submit_without_pool:
  "interview_screen answering_world 5 6 ''s1'' (Map.empty, None) started_one
     (Some (''=SUM(A1:A3)'', solved_table))
   = Inr (finished_one, save_session_state Map.empty ''s1'' finished_one, None)"
  by (simp add: interview_screen_def started_one_def initial_state_def answering_world_def
      good_answer_for_sum sum_question_fields DataFrame_def save_interview_report_def Let_def
      finished_one_def solved_table_def)

text \<open>
  Claim C5. For a state whose evaluations carry scores from 1 to 5 (every state of the
  data model; a dict with another score is saved and then refused by \<^verbatim>\<open>Evaluation(**e)\<close>),
  a get directly after a put of that state returns a state that serializes to the same
  document and agrees with the stored one in every field, the evaluations up to how they
  are held: what was stored as a plain dict comes back as the \<^verbatim>\<open>Evaluation\<close> object with
  the same three fields.
\<close>

theorem get_after_put_round_trip:
  "valid_scores state \<longrightarrow>
     (\<exists>loaded. get_session_state cv (save_session_state redis_conn sid state) sid = Inr (Some loaded) \<and>
        serialize_data loaded = serialize_data state \<and>
        session_id loaded = session_id state \<and>
        current_question_index loaded = current_question_index state \<and>
        questions loaded = questions state \<and>
        user_answers loaded = user_answers state \<and>
        map entry_evaluation (evaluations loaded) = map entry_evaluation (evaluations state) \<and>
        interview_started loaded = interview_started state \<and>
        interview_finished loaded = interview_finished state \<and>
        start_time loaded = start_time state \<and>
        end_time loaded = end_time state)"
proof
  assume v: "valid_scores state"
  have "map entry_evaluation (evaluations (rehydrated state)) = map entry_evaluation (evaluations state)"
    by (simp add: rehydrated_def o_def)
  moreover have "session_id (rehydrated state) = session_id state"
    "current_question_index (rehydrated state) = current_question_index state"
    "questions (rehydrated state) = questions state"
    "user_answers (rehydrated state) = user_answers state"
    "interview_started (rehydrated state) = interview_started state"
    "interview_finished (rehydrated state) = interview_finished state"
    "start_time (rehydrated state) = start_time state"
    "end_time (rehydrated state) = end_time state"
    by (simp_all add: rehydrated_def)
  ultimately show "\<exists>loaded. get_session_state cv (save_session_state redis_conn sid state) sid = Inr (Some loaded) \<and>
        serialize_data loaded = serialize_data state \<and>
        session_id loaded = session_id state \<and>
        current_question_index loaded = current_question_index state \<and>
        questions loaded = questions state \<and>
        user_answers loaded = user_answers state \<and>
        map entry_evaluation (evaluations loaded) = map entry_evaluation (evaluations state) \<and>
        interview_started loaded = interview_started state \<and>
        interview_finished loaded = interview_finished state \<and>
        start_time loaded = start_time state \<and>
        end_time loaded = end_time state"
    using get_after_save [OF v, of cv redis_conn sid] serialize_rehydrated [of state] by simp
qed

theorem get_after_put_round_trip_witness:
  "valid_scores finished_one \<and>
   evaluations finished_one = [PlainDict \<lparr>score = 4, is_correct = True, feedback = ''ok''\<rparr>] \<and>
   get_session_state no_conversions (save_session_state Map.empty ''s1'' finished_one) ''s1''
     = Inr (Some (finished_one\<lparr>evaluations := [Model \<lparr>score = 4, is_correct = True, feedback = ''ok''\<rparr>]\<rparr>)) \<and>
   serialize_data (finished_one\<lparr>evaluations := [Model \<lparr>score = 4, is_correct = True, feedback = ''ok''\<rparr>]\<rparr>)
     = serialize_data finished_one"
proof -
  have v: "valid_scores finished_one"
    by (simp add: valid_scores_def finished_one_def)
  have e: "evaluations finished_one = [PlainDict \<lparr>score = 4, is_correct = True, feedback = ''ok''\<rparr>]"
    by (simp add: finished_one_def)
  have r: "rehydrated finished_one =
      finished_one\<lparr>evaluations := [Model \<lparr>score = 4, is_correct = True, feedback = ''ok''\<rparr>]\<rparr>"
    by (simp add: rehydrated_def finished_one_def)
  have g: "get_session_state no_conversions (save_session_state Map.empty ''s1'' finished_one) ''s1''
     = Inr (Some (finished_one\<lparr>evaluations := [Model \<lparr>score = 4, is_correct = True, feedback = ''ok''\<rparr>]\<rparr>))"
    using get_after_save [OF v] r by simp
  from v obtain loaded where
    "get_session_state no_conversions (save_session_state Map.empty ''s1'' finished_one) ''s1'' = Inr (Some loaded)"
    "serialize_data loaded = serialize_data finished_one"
    using get_after_put_round_trip [where state = finished_one and cv = no_conversions
        and redis_conn = Map.empty and sid = "''s1''"]
    by blast
  with g have "serialize_data (finished_one\<lparr>evaluations := [Model \<lparr>score = 4, is_correct = True, feedback = ''ok''\<rparr>]\<rparr>)
     = serialize_data finished_one"
    by simp
  with v e g show ?thesis by simp
qed

text \<open>
  How the evaluations are held matters to the rest of the flow. The state the lifecycle
  stores after the only question of an interview (no report pool, so the submit gets as
  far as the save) holds its evaluation as a plain dict; the state read back holds an
  \<^verbatim>\<open>Evaluation\<close> object and is a different Python value. \<^verbatim>\<open>final_report_screen\<close>, which
  subscripts the evaluations, works on the saved state and raises \<^verbatim>\<open>TypeError\<close> on the one
  read back, so the next run of \<^verbatim>\<open>main\<close> ends in that exception.
\<close>

lemma stored_dicts_come_back_as_models:
  "interview_screen answering_world 5 6 ''s1'' (Map.empty, None) started_one
     (Some (''=SUM(A1:A3)'', solved_table))
   = Inr (finished_one, save_session_state Map.empty ''s1'' finished_one, None) \<and>
   evaluations finished_one = [PlainDict \<lparr>score = 4, is_correct = True, feedback = ''ok''\<rparr>] \<and>
   get_session_state no_conversions (save_session_state Map.empty ''s1'' finished_one) ''s1''
     = Inr (Some (finished_one\<lparr>evaluations := [Model \<lparr>score = 4, is_correct = True, feedback = ''ok''\<rparr>]\<rparr>)) \<and>
   finished_one\<lparr>evaluations := [Model \<lparr>score = 4, is_correct = True, feedback = ''ok''\<rparr>]\<rparr> \<noteq> finished_one \<and>
   final_report_screen finished_one = Inr (Some 4) \<and>
   final_report_screen (finished_one\<lparr>evaluations := [Model \<lparr>score = 4, is_correct = True, feedback = ''ok''\<rparr>]\<rparr>)
     = Inl TypeError \<and>
   main answering_world 7 8 ''s1'' (save_session_state Map.empty ''s1'' finished_one, None) View
     = Inl TypeError"
proof -
  have v: "valid_scores finished_one"
    by (simp add: valid_scores_def finished_one_def)
  have r: "rehydrated finished_one =
      finished_one\<lparr>evaluations := [Model \<lparr>score = 4, is_correct = True, feedback = ''ok''\<rparr>]\<rparr>"
    by (simp add: rehydrated_def finished_one_def)
  have g: "get_session_state no_conversions (save_session_state Map.empty ''s1'' finished_one) ''s1''
     = Inr (Some (finished_one\<lparr>evaluations := [Model \<lparr>score = 4, is_correct = True, feedback = ''ok''\<rparr>]\<rparr>))"
    using get_after_save [OF v] r by simp
  have n: "finished_one\<lparr>evaluations := [Model \<lparr>score = 4, is_correct = True, feedback = ''ok''\<rparr>]\<rparr> \<noteq> finished_one"
    by (simp add: finished_one_def)
  have f1: "final_report_screen finished_one = Inr (Some 4)"
    by (simp add: final_report_screen_def finished_one_def mean_score_def)
  have f2: "final_report_screen (finished_one\<lparr>evaluations := [Model \<lparr>score = 4, is_correct = True, feedback = ''ok''\<rparr>]\<rparr>)
     = Inl TypeError"
    by (simp add: final_report_screen_def)
  have m: "main answering_world 7 8 ''s1'' (save_session_state Map.empty ''s1'' finished_one, None) View
     = Inl TypeError"
    using g f2 by (simp add: main_def answering_world_def finished_one_def)
  have e: "evaluations finished_one = [PlainDict \<lparr>score = 4, is_correct = True, feedback = ''ok''\<rparr>]"
    by (simp add: finished_one_def)
  from last_submit_without_pool e g n f1 f2 m show ?thesis by simp
qed

section \<open>The lifecycle: the invariant and the empty catalog\<close>

lemma start_screen_state:
  "start_screen w now sid redis_conn = Inr (state, redis_after) \<Longrightarrow>
   \<exists>qs. state = (initial_state sid qs)\<lparr>interview_started := True, start_time := Some now\<rparr>"
  by (auto simp: start_screen_def create_new_session_def split: sum.splits)

lemma deserialize_fields:
  assumes "deserialize_data cv (serialize_data state) = Inr loaded"
  shows "questions loaded = questions state"
    and "length (evaluations loaded) = length (evaluations state)"
    and "user_answers loaded = user_answers state"
    and "current_question_index loaded = current_question_index state"
    and "interview_finished loaded = interview_finished state"
    and "interview_started loaded = interview_started state"
proof -
  from assms obtain evs where
    e: "evaluations_of cv (map entry_dump (evaluations state)) = Inr evs" and
    l: "loaded = \<lparr>session_id = session_id state,
                    current_question_index = current_question_index state,
                    questions = questions state,
                    user_answers = user_answers state,
                    evaluations = map Model evs,
                    interview_started = interview_started state,
                    interview_finished = interview_finished state,
                    start_time = start_time state,
                    end_time = end_time state\<rparr>"
    by (auto simp: deserialize_data_def serialize_data_def questions_of_dump split: sum.splits)
  from e have "length evs = length (evaluations state)"
    using evaluations_of_length by fastforce
  with l show "questions loaded = questions state"
    and "length (evaluations loaded) = length (evaluations state)"
    and "user_answers loaded = user_answers state"
    and "current_question_index loaded = current_question_index state"
    and "interview_finished loaded = interview_finished state"
    and "interview_started loaded = interview_started state"
    by simp_all
qed

lemma submit_state:
  assumes "interview_screen w t_end t_report sid st state (Some (formula, edited_df)) = Inr (after, st_after)"
  shows "current_question_index state < length (questions state)"
    and "questions after = questions state"
    and "current_question_index after = current_question_index state + 1"
    and "length (user_answers after) = length (user_answers state) + 1"
    and "length (evaluations after) = length (evaluations state) + 1"
    and "interview_finished after =
           (interview_finished state \<or> length (questions state) \<le> current_question_index state + 1)"
  using assms
  by (auto simp: interview_screen_def Let_def split: if_splits sum.splits option.splits)

text \<open>What holds in every state of the lifecycle, and the invariant of the specification
  for every state with at least one question.\<close>

lemma reachable_invariant:
  "reachable cv state \<Longrightarrow>
     length (user_answers state) = current_question_index state \<and>
     length (evaluations state) = current_question_index state \<and>
     current_question_index state \<le> length (questions state) \<and>
     (interview_finished state \<longrightarrow> current_question_index state = length (questions state)) \<and>
     (current_question_index state = length (questions state) \<longrightarrow>
        interview_finished state \<or> questions state = [])"
proof (induction rule: reachable.induct)
  case (created redis_conn sid qs)
  then show ?case by (simp add: create_new_session_def initial_state_def)
next
  case (started w now sid redis_conn state redis1)
  then obtain qs where "state = (initial_state sid qs)\<lparr>interview_started := True, start_time := Some now\<rparr>"
    using start_screen_state by blast
  then show ?case by (simp add: initial_state_def)
next
  case (loaded state state1)
  then show ?case
    using deserialize_fields [of cv state state1] by simp
next
  case (submitted state w t_end t_report sid st formula edited_df state1 st1)
  then show ?case
    using submit_state [of w t_end t_report sid st state formula edited_df state1 st1] by auto
qed

lemma reachable_nonempty_invariant:
  "reachable cv state \<Longrightarrow> questions state \<noteq> [] \<Longrightarrow> lifecycle_invariant state"
  using reachable_invariant [of cv state] by (auto simp: lifecycle_invariant_def)

text \<open>
  Claim C1 at the empty catalog. \<^verbatim>\<open>create_new_session\<close> with no questions returns a state
  whose index already equals the number of questions and which is not finished, and the
  start transition does not change that: both states are reachable and break the
  invariant.
\<close>

theorem empty_catalog_breaks_invariant:
  "fst (create_new_session Map.empty ''s1'' []) = initial_state ''s1'' [] \<and>
   reachable no_conversions (initial_state ''s1'' []) \<and>
   \<not> interview_finished (initial_state ''s1'' []) \<and>
   current_question_index (initial_state ''s1'' []) = length (questions (initial_state ''s1'' [])) \<and>
   \<not> lifecycle_invariant (initial_state ''s1'' []) \<and>
   reachable no_conversions started_empty \<and>
   \<not> lifecycle_invariant started_empty"
proof -
  have a: "fst (create_new_session Map.empty ''s1'' []) = initial_state ''s1'' []"
    by (simp add: create_new_session_def)
  have b: "reachable no_conversions (initial_state ''s1'' [])"
    using reachable.created [of no_conversions Map.empty "''s1''" "[]"] a by simp
  have "start_screen (world_with_file Missing) 7 ''s1'' Map.empty =
      Inr (started_empty, Map.empty(session_key ''s1'' \<mapsto> serialize_data started_empty))"
    by (simp add: start_screen_loaded world_with_file_fields started_empty_def
        load_questions_def load_questions_try_def)
  then have c: "reachable no_conversions started_empty"
    using reachable.started [of "world_with_file Missing" no_conversions] world_with_file_fields(1)
    by blast
  from a b c show ?thesis
    by (simp add: lifecycle_invariant_def initial_state_def started_empty_def)
qed


text \<open>
  Claim C4 at the empty catalog \<^verbatim>\<open>[]\<close>. The start transition stores a started session
  with no evaluations that is not finished; from then on every run of \<^verbatim>\<open>main\<close> for that
  session, whatever the user does, ends in the \<^verbatim>\<open>IndexError\<close> of \<^verbatim>\<open>questions[0]\<close>, so the
  session never becomes finished.
\<close>

theorem empty_catalog_never_finishes:
  "load_questions no_conversions (Parsed (JArr [])) = Inr [] \<and>
   start_screen (world_with_file (Parsed (JArr []))) 7 ''s1'' redis_conn =
     Inr (started_empty, save_session_state redis_conn ''s1'' started_empty) \<and>
   interview_started started_empty \<and>
   \<not> interview_finished started_empty \<and>
   evaluations started_empty = [] \<and>
   main w now t_report ''s1'' (save_session_state redis_conn ''s1'' started_empty, pool) act
     = Inl IndexError"
proof -
  have l: "load_questions no_conversions (Parsed (JArr [])) = Inr []"
    by (simp add: load_questions_list)
  then have s: "start_screen (world_with_file (Parsed (JArr []))) 7 ''s1'' redis_conn =
     Inr (started_empty, save_session_state redis_conn ''s1'' started_empty)"
    by (simp add: start_screen_loaded world_with_file_fields started_empty_def save_session_state_def)
  have v: "valid_scores started_empty"
    by (simp add: valid_scores_def started_empty_def initial_state_def)
  have r: "rehydrated started_empty = started_empty"
    by (simp add: rehydrated_same started_empty_def initial_state_def)
  have g: "get_session_state (pydantic w) (save_session_state redis_conn ''s1'' started_empty) ''s1''
      = Inr (Some started_empty)"
    using get_after_save [OF v] r by simp
  have f: "interview_started started_empty" "\<not> interview_finished started_empty"
    "evaluations started_empty = []" "questions started_empty = []"
    by (simp_all add: started_empty_def initial_state_def)
  have m: "main w now t_report ''s1'' (save_session_state redis_conn ''s1'' started_empty, pool) act
     = Inl IndexError"
    using g f by (simp add: main_def interview_screen_def)
  from l s f m show ?thesis by simp
qed

section \<open>The lifecycle: the report of a finished interview\<close>

lemma get_scores_error: "get_scores es = Inl x \<Longrightarrow> x = AttributeError"
  by (induction es arbitrary: x rule: get_scores.induct) (auto split: sum.splits)

lemma get_feedback_error: "get_feedback es = Inl x \<Longrightarrow> x = AttributeError"
  by (induction es arbitrary: x rule: get_feedback.induct) (auto split: sum.splits)

lemma json_dumps_objects: "questions state \<noteq> [] \<Longrightarrow> json_dumps state = Inl TypeError"
  by (simp add: json_dumps_def)

lemma reachable_finished_has_question:
  "reachable cv state \<Longrightarrow> interview_finished state \<longrightarrow> questions state \<noteq> []"
proof (induction rule: reachable.induct)
  case (created redis_conn sid qs)
  then show ?case by (simp add: create_new_session_def initial_state_def)
next
  case (started w now sid redis_conn state redis1)
  then obtain qs where "state = (initial_state sid qs)\<lparr>interview_started := True, start_time := Some now\<rparr>"
    using start_screen_state by blast
  then show ?case by (simp add: initial_state_def)
next
  case (loaded state state1)
  then show ?case
    using deserialize_fields [of cv state state1] by simp
next
  case (submitted state w t_end t_report sid st formula edited_df state1 st1)
  then show ?case
    using submit_state [of w t_end t_report sid st state formula edited_df state1 st1] by auto
qed

text \<open>No finished state of the lifecycle gets its report into the table: a finished state
  holds a \<^verbatim>\<open>Question\<close> object, so the call raises, or returns with the table untouched
  when \<^verbatim>\<open>getconn\<close> fails first.\<close>

lemma finished_report_never_saved:
  assumes "reachable cv state" and "interview_finished state"
  shows "save_interview_report fault now (Some rows) state = Inl AttributeError \<or>
         save_interview_report fault now (Some rows) state = Inl TypeError \<or>
         (fault = GetconnFails \<and> save_interview_report fault now (Some rows) state = Inr (Some rows))"
proof -
  from assms have "questions state \<noteq> []"
    using reachable_finished_has_question by blast
  then have d: "json_dumps state = Inl TypeError"
    by (rule json_dumps_objects)
  show ?thesis
  proof (cases "get_scores (evaluations state)")
    case (Inl x)
    then have "x = AttributeError" by (rule get_scores_error)
    with Inl show ?thesis by (simp add: save_interview_report_def)
  next
    case s: (Inr scores)
    show ?thesis
    proof (cases "get_feedback (evaluations state)")
      case (Inl x)
      then have "x = AttributeError" by (rule get_feedback_error)
      with s Inl show ?thesis by (simp add: save_interview_report_def)
    next
      case (Inr items)
      with s d show ?thesis by (simp add: save_interview_report_def)
    qed
  qed
qed

lemma started_one_reachable: "reachable no_conversions started_one"
proof -
  have "load_questions (pydantic answering_world) (questions_file answering_world) = Inr [sum_question]"
    by (simp add: answering_world_def load_questions_list Question_init_dump)
  then have "start_screen answering_world 1 ''s1'' Map.empty =
      Inr (started_one, Map.empty(session_key ''s1'' \<mapsto> serialize_data started_one))"
    by (simp add: start_screen_loaded started_one_def)
  moreover have "pydantic answering_world = no_conversions"
    by (simp add: answering_world_def)
  ultimately show ?thesis
    using reachable.started [of answering_world no_conversions] by blast
qed

text \<open>
  Claim C7 at the last submit of a one-question interview, started from the catalog by
  \<^verbatim>\<open>start_screen\<close>. Without a pool the submit produces the finished state and saves it to
  the session store. With the pool available \<^verbatim>\<open>save_interview_report\<close> raises \<^verbatim>\<open>TypeError\<close>
  on that finished state (\<^verbatim>\<open>json.dumps\<close> without a default meets the \<^verbatim>\<open>Question\<close> object),
  so the submit and the run of \<^verbatim>\<open>main\<close> end in that exception: no report row is written and
  the finished state is not saved either. On the same state as read back from the session
  store the call already fails at \<^verbatim>\<open>e.get\<close> with \<^verbatim>\<open>AttributeError\<close>.
\<close>

theorem finishing_submit_raises:
  "reachable no_conversions started_one \<and>
   interview_screen answering_world 5 6 ''s1'' (Map.empty, None) started_one
     (Some (''=SUM(A1:A3)'', solved_table))
     = Inr (finished_one, save_session_state Map.empty ''s1'' finished_one, None) \<and>
   save_interview_report NoFault 6 (Some []) finished_one = Inl TypeError \<and>
   interview_screen answering_world 5 6 ''s1'' (Map.empty, Some []) started_one
     (Some (''=SUM(A1:A3)'', solved_table)) = Inl TypeError \<and>
   main answering_world 5 6 ''s1'' (save_session_state Map.empty ''s1'' started_one, Some [])
     (PressSubmit ''=SUM(A1:A3)'' solved_table) = Inl TypeError \<and>
   save_interview_report NoFault 6 (Some [])
     (finished_one\<lparr>evaluations := [Model \<lparr>score = 4, is_correct = True, feedback = ''ok''\<rparr>]\<rparr>)
     = Inl AttributeError"
proof -
  have r: "save_interview_report NoFault 6 (Some []) finished_one = Inl TypeError"
    by (simp add: save_interview_report_def finished_one_def json_dumps_def)
  have i: "interview_screen answering_world 5 6 ''s1'' (Map.empty, Some []) started_one
     (Some (''=SUM(A1:A3)'', solved_table)) = Inl TypeError"
    by (simp add: interview_screen_def started_one_def initial_state_def answering_world_def
        good_answer_for_sum sum_question_fields DataFrame_def save_interview_report_def
        json_dumps_def Let_def)
  have v: "valid_scores started_one"
    by (simp add: valid_scores_def started_one_def initial_state_def)
  have h: "rehydrated started_one = started_one"
    by (simp add: rehydrated_same started_one_def initial_state_def)
  have g: "get_session_state (pydantic answering_world)
             (fst (save_session_state Map.empty ''s1'' started_one, Some ([] :: report_row list))) ''s1''
           = Inr (Some started_one)"
    using get_after_save [OF v] h by simp
  have f: "interview_started started_one" "\<not> interview_finished started_one"
    by (simp_all add: started_one_def initial_state_def)
  have i2: "interview_screen answering_world 5 6 ''s1''
      (save_session_state Map.empty ''s1'' started_one, Some []) started_one
     (Some (''=SUM(A1:A3)'', solved_table)) = Inl TypeError"
    by (simp add: interview_screen_def started_one_def initial_state_def answering_world_def
        good_answer_for_sum sum_question_fields DataFrame_def save_interview_report_def
        json_dumps_def Let_def)
  have m: "main answering_world 5 6 ''s1'' (save_session_state Map.empty ''s1'' started_one, Some [])
     (PressSubmit ''=SUM(A1:A3)'' solved_table) = Inl TypeError"
    using g f i2 by (simp add: main_def)
  have a: "save_interview_report NoFault 6 (Some [])
     (finished_one\<lparr>evaluations := [Model \<lparr>score = 4, is_correct = True, feedback = ''ok''\<rparr>]\<rparr>)
     = Inl AttributeError"
    by (simp add: save_interview_report_def)
  from started_one_reachable last_submit_without_pool r i m a show ?thesis by simp
qed

end
